theory Spec2Isabelle
  imports Main "HOL-Library.Word" "HOL-Library.Sublist"
begin

unbundle bit_operations_syntax

section \<open>iSensor FX3 firmware: the control endpoint handler of main.c\<close>

text \<open>
  The development embeds \<^verbatim>\<open>AdiControlEndpointHandler\<close>, \<^verbatim>\<open>AdiAppStop\<close>,
  \<^verbatim>\<open>AdiAppErrorHandler\<close>, \<^verbatim>\<open>AdiGetBuildDate\<close> and \<^verbatim>\<open>AdiGetBoardPinInfo\<close> of
  \<^verbatim>\<open>FX3_Firmware/main.c\<close>. The functions these call and main.c does not define (the
  Cypress SDK and the other translation units of the firmware) are calls to an
  environment: every such call is recorded, in order, with the globals it found and the
  status it returned, and the environment decides the status and what the call does to
  the globals. \<^verbatim>\<open>CyU3PDeviceReset\<close> reboots the device and does not return: a run ends
  at that call.
\<close>

type_synonym u8 = "8 word"
type_synonym u16 = "16 word"
type_synonym u32 = "32 word"

subsection \<open>Names declared in main.h\<close>

text \<open>The case labels of the vendor request switch, in the order of the switch.\<close>

datatype vendor_request =
    ADI_BUSY_MEASURE | ADI_READ_BYTES | ADI_WRITE_BYTE | ADI_SET_BOOT_TIME | ADI_PULSE_DRIVE
  | ADI_PULSE_WAIT | ADI_SET_PIN | ADI_FIRMWARE_ID_CHECK | ADI_SERIAL_NUMBER_CHECK
  | ADI_GET_BUILD_DATE | ADI_HARD_RESET | ADI_WARM_RESET | ADI_SET_SPI_CONFIG | ADI_READ_PIN
  | ADI_PIN_DELAY_MEASURE | ADI_READ_SPI_CONFIG | ADI_READ_TIMER_VALUE | ADI_SET_DUT_SUPPLY
  | ADI_GET_STATUS | ADI_GET_BOARD_TYPE | ADI_STREAM_GENERIC_DATA | ADI_STREAM_BURST_DATA
  | ADI_STREAM_REALTIME | ADI_TRANSFER_STREAM | ADI_MEASURE_DR | ADI_PWM_CMD
  | ADI_TRANSFER_BYTES | ADI_BITBANG_SPI | ADI_RESET_SPI | ADI_SET_PIN_RESISTOR
  | ADI_NULL_COMMAND | ADI_READ_FLASH | ADI_CLEAR_FLASH_LOG

text \<open>The event flags passed to \<^verbatim>\<open>CyU3PEventSet\<close>, by the name of their macro.\<close>

datatype event_flag =
    ADI_GENERIC_STREAM_START | ADI_GENERIC_STREAM_DONE | ADI_GENERIC_STREAM_STOP
  | ADI_BURST_STREAM_START | ADI_BURST_STREAM_DONE | ADI_BURST_STREAM_STOP
  | ADI_RT_STREAM_START | ADI_RT_STREAM_DONE | ADI_RT_STREAM_STOP
  | ADI_TRANSFER_STREAM_START | ADI_TRANSFER_STREAM_DONE | ADI_TRANSFER_STREAM_STOP

datatype event_group = EventHandler | GpioHandler

datatype endpoint = ADI_STREAMING_ENDPOINT | ADI_FROM_PC_ENDPOINT | ADI_TO_PC_ENDPOINT

datatype dma_channel = StreamingChannel | ChannelFromPC | ChannelToPC | MemoryToSPI

text \<open>The buffers whose address main.c passes to a call.\<close>

datatype buffer_ref = USBBuffer_ref | BulkBuffer_ref | FirmwareID_ref | serial_number_ref

subsection \<open>The globals of main.c\<close>

record PinMap_t =
  ADI_PIN_RESET :: u16
  ADI_PIN_DIO1 :: u16
  ADI_PIN_DIO2 :: u16
  ADI_PIN_DIO3 :: u16
  ADI_PIN_DIO4 :: u16
  FX3_PIN_GPIO1 :: u16
  FX3_PIN_GPIO2 :: u16
  FX3_PIN_GPIO3 :: u16
  FX3_PIN_GPIO4 :: u16

record SpiConfig_t =
  isLsbFirst :: bool
  cpol :: bool
  ssnPol :: bool
  cpha :: bool
  leadTime :: u32
  lagTime :: u32
  ssnCtrl :: u32
  clock :: u32
  wordLen :: u8

text \<open>\<^verbatim>\<open>BoardState FX3State\<close>: the fields main.c names.\<close>

record BoardState =
  BootTime :: u32
  WatchDogEnabled :: bool
  WatchDogPeriodMs :: u32
  WatchDogTicks :: u32
  BoardType :: u32
  PinMap :: PinMap_t
  AppActive :: bool
  UsbBufferSize :: u16
  TimerPinConfig :: u32
  StallTime :: u32
  DutType :: u32
  DrPin :: u16
  DrActive :: bool
  DrPolarity :: bool
  SpiConfig :: SpiConfig_t

text \<open>
  \<^verbatim>\<open>StreamState StreamThreadState\<close>: the fields main.c names. The two lengths are
  assigned from the 16-bit \<^verbatim>\<open>wLength\<close>; \<^verbatim>\<open>PinExitEnable\<close> is a \<^verbatim>\<open>CyBool_t\<close>.
\<close>

record StreamState =
  TransferByteLength :: u16
  TransferWordLength :: u16
  PinExitEnable :: bool

record CyU3PDmaBuffer_t =
  dma_buffer :: "buffer_ref option"
  dma_size :: u16
  dma_count :: u16

text \<open>
  \<^verbatim>\<open>USBBuffer\<close> is an array of 4096 bytes; the functions embedded here write it at
  constant indices below 22 only, so it is a function from the index to the byte.
\<close>

record globals =
  FX3State :: BoardState
  StreamThreadState :: StreamState
  KillStreamEarly :: bool
  USBBuffer :: "nat \<Rightarrow> u8"
  ManualDMABuffer :: CyU3PDmaBuffer_t

subsection \<open>Calls that leave main.c\<close>

text \<open>
  One constructor per function main.c calls and does not define, with the arguments the
  call passes. A \<^verbatim>\<open>CyBool_t\<close> argument is a truth value: a cast \<^verbatim>\<open>(CyBool_t) x\<close> is
  \<open>x \<noteq> 0\<close>. \<^verbatim>\<open>CyU3PMemSet\<close> has no constructor: the embedded functions call it
  once, in \<^verbatim>\<open>AdiAppStop\<close>, to zero the local \<^verbatim>\<open>epConfig\<close>, and the zeroed local is part
  of the \<^verbatim>\<open>CyU3PSetEpConfig\<close> calls below.
\<close>

datatype call =
    AdiMeasureBusyPulse u16
  | AdiReadRegBytes u16
  | AdiWriteRegByte u16 u8
  | AdiPulseDrive
  | AdiPulseWait u16
  | AdiSetPin u16 bool
  | AdiSpiUpdate u16 u16 u16
  | AdiPinRead u16
  | AdiMeasurePinDelay u16
  | AdiGetSpiSettings
  | AdiReadTimerValue
  | AdiSetDutSupply u16
  | AdiMeasurePinFreq
  | AdiConfigurePWM bool
  | AdiTransferBytes u32
  | AdiBitBangSpiHandler
  | AdiRestartSpi
  | AdiSetPinResistor u16 u16
  | AdiLogError nat u16
  | AdiFlashReadHandler u32 u16
  | WriteErrorLogCount u32
  | CyU3PUsbGetEP0Data u16 buffer_ref
  | CyU3PUsbSendEP0Data u16 buffer_ref
  | CyU3PDmaChannelSetupSendBuffer dma_channel
  | CyU3PEventSet event_group event_flag
  | CyU3PUsbAckSetup
  | CyU3PUsbStall u8 bool bool
  | CyU3PThreadSleep u32
  | CyU3PConnectState bool bool
  | CyU3PPibDeInit
  | CyU3PDeviceReset bool
  | CyU3PUartDeInit
  | CyU3PGpioDeInit
  | CyU3PSpiDeInit
  | CyU3PEventDestroy event_group
  | CyU3PUsbFlushEp endpoint
  | CyU3PDmaChannelDestroy dma_channel
  | CyU3PSetEpConfig endpoint bool

text \<open>A recorded call: the call, the globals at the moment of the call, the status returned.\<close>

record call_event =
  ev_call :: call
  ev_globals :: globals
  ev_ret :: u32

text \<open>
  The environment: given the calls made so far, the call and the globals, the status the
  call returns and the globals it leaves.
\<close>

type_synonym env = "call_event list \<Rightarrow> call \<Rightarrow> globals \<Rightarrow> u32 \<times> globals"

datatype dbg_arg = ArgWord u32 | ArgBuf buffer_ref

text \<open>
  The world of the firmware: the globals, the calls made and the lines handed to
  \<^verbatim>\<open>CyU3PDebugPrint\<close> (format string without its trailing CR LF, and arguments).
\<close>

record world =
  globals :: globals
  trace :: "call_event list"
  debug_log :: "(string \<times> dbg_arg list) list"

text \<open>An external call: ask the environment, record the call, take over the globals.\<close>

definition ext :: "env \<Rightarrow> call \<Rightarrow> world \<Rightarrow> u32 \<times> world" where
  "ext e cl w =
     (let r = e (trace w) cl (globals w)
      in (fst r,
          w\<lparr>globals := snd r,
            trace := trace w @ [\<lparr>ev_call = cl, ev_globals = globals w, ev_ret = fst r\<rparr>]\<rparr>))"

definition CyU3PDebugPrint :: "string \<Rightarrow> dbg_arg list \<Rightarrow> world \<Rightarrow> world" where
  "CyU3PDebugPrint msg args w = w\<lparr>debug_log := debug_log w @ [(msg, args)]\<rparr>"

text \<open>What a run from \<open>w\<close> to \<open>w'\<close> added to the trace and to the debug log.\<close>

definition calls_made :: "world \<Rightarrow> world \<Rightarrow> call_event list" where
  "calls_made w w' = drop (length (trace w)) (trace w')"

definition lines_printed :: "world \<Rightarrow> world \<Rightarrow> (string \<times> dbg_arg list) list" where
  "lines_printed w w' = drop (length (debug_log w)) (debug_log w')"

subsection \<open>Constants of headers outside main.c\<close>

text \<open>
  main.c takes the layout of the setup packet, the request type codes and
  \<^verbatim>\<open>CY_U3P_SUCCESS\<close> from the Cypress SDK headers, the vendor request codes from main.h,
  \<^verbatim>\<open>VERBOSE_MODE\<close> from the build and \<^verbatim>\<open>__DATE__\<close>, \<^verbatim>\<open>__TIME__\<close> from the compiler.
  None of them is defined in main.c, so the embedding takes them as a parameter. The
  labels of a C switch are pairwise distinct, so the vendor request codes are a partial
  map from the request byte to the label; \<open>None\<close> is the default label.
\<close>

record fx3_headers =
  CY_U3P_USB_REQUEST_TYPE_MASK :: u32
  CY_U3P_USB_TYPE_MASK :: u32
  CY_U3P_USB_TARGET_MASK :: u32
  CY_U3P_USB_REQUEST_MASK :: u32
  CY_U3P_USB_REQUEST_POS :: nat
  CY_U3P_USB_VALUE_MASK :: u32
  CY_U3P_USB_VALUE_POS :: nat
  CY_U3P_USB_INDEX_MASK :: u32
  CY_U3P_USB_INDEX_POS :: nat
  CY_U3P_USB_LENGTH_MASK :: u32
  CY_U3P_USB_LENGTH_POS :: nat
  CY_U3P_USB_VENDOR_RQT :: u32
  CY_U3P_USB_STANDARD_RQT :: u32
  CY_U3P_USB_TARGET_INTF :: u32
  CY_U3P_USB_TARGET_ENDPT :: u32
  CY_U3P_USB_SC_SET_FEATURE :: u32
  CY_U3P_USB_SC_CLEAR_FEATURE :: u32
  CY_U3P_SUCCESS :: u32
  vendor_request_of :: "u8 \<Rightarrow> vendor_request option"
  VERBOSE_MODE :: bool
  build_DATE :: "u8 list"
  build_TIME :: "u8 list"

text \<open>
  Modelled from the spec: the values of \<^verbatim>\<open>ADI_STREAM_START_CMD\<close>,
  \<^verbatim>\<open>ADI_STREAM_DONE_CMD\<close> and \<^verbatim>\<open>ADI_STREAM_STOP_CMD\<close> (main.h), which the table of the
  control-transfer surface gives as Start=0 / Done=1 / Stop=2.
\<close>

definition ADI_STREAM_START_CMD :: u16 where
  "ADI_STREAM_START_CMD = 0"

definition ADI_STREAM_DONE_CMD :: u16 where
  "ADI_STREAM_DONE_CMD = 1"

definition ADI_STREAM_STOP_CMD :: u16 where
  "ADI_STREAM_STOP_CMD = 2"

subsection \<open>Statements\<close>

text \<open>
  The locals of \<^verbatim>\<open>AdiControlEndpointHandler\<close> that its statements assign, and the world.
  \<open>halted\<close> says that the device has been reset: the run has ended and no further
  statement is executed. A statement maps a frame to a frame; a block runs its statements
  in order, as long as the device has not been reset.
\<close>

record frame =
  isHandled :: bool
  status :: u32
  wld :: world
  halted :: bool

type_synonym stmt = "frame \<Rightarrow> frame"

fun block :: "stmt list \<Rightarrow> stmt" where
  "block [] x = x"
| "block (s # ss) x = (if halted x then x else block ss (s x))"

definition if_stmt :: "(frame \<Rightarrow> bool) \<Rightarrow> stmt list \<Rightarrow> stmt list \<Rightarrow> stmt" where
  "if_stmt b ss ts x = (if b x then block ss x else block ts x)"

text \<open>\<^verbatim>\<open>status = f(...)\<close>, \<^verbatim>\<open>f(...)\<close> with its value dropped, \<^verbatim>\<open>isHandled = f(...)\<close>.\<close>

definition status_call :: "env \<Rightarrow> call \<Rightarrow> stmt" where
  "status_call e cl x = (let r = ext e cl (wld x) in x\<lparr>status := fst r, wld := snd r\<rparr>)"

definition void_call :: "env \<Rightarrow> call \<Rightarrow> stmt" where
  "void_call e cl x = x\<lparr>wld := snd (ext e cl (wld x))\<rparr>"

definition isHandled_call :: "env \<Rightarrow> call \<Rightarrow> stmt" where
  "isHandled_call e cl x =
     (let r = ext e cl (wld x) in x\<lparr>isHandled := (fst r \<noteq> 0), wld := snd r\<rparr>)"

definition set_isHandled :: "bool \<Rightarrow> stmt" where
  "set_isHandled b x = x\<lparr>isHandled := b\<rparr>"

definition print :: "string \<Rightarrow> (frame \<Rightarrow> dbg_arg list) \<Rightarrow> stmt" where
  "print msg args x = x\<lparr>wld := CyU3PDebugPrint msg (args x) (wld x)\<rparr>"

text \<open>\<^verbatim>\<open>CyU3PDeviceReset(isWarm)\<close>: the call is recorded and the run ends.\<close>

definition device_reset :: "env \<Rightarrow> bool \<Rightarrow> stmt" where
  "device_reset e isWarm x =
     x\<lparr>wld := snd (ext e (CyU3PDeviceReset isWarm) (wld x)), halted := True\<rparr>"

definition on_globals :: "(globals \<Rightarrow> globals) \<Rightarrow> stmt" where
  "on_globals f x = x\<lparr>wld := (wld x)\<lparr>globals := f (globals (wld x))\<rparr>\<rparr>"

text \<open>
  The four assignments \<^verbatim>\<open>USBBuffer[0] = status & 0xFF\<close> ...
  \<^verbatim>\<open>USBBuffer[3] = (status & 0xFF000000) >> 24\<close>, each truncated to \<^verbatim>\<open>uint8_t\<close>.
\<close>

definition status_to_USBBuffer :: stmt where
  "status_to_USBBuffer x =
     on_globals (\<lambda>g. g\<lparr>USBBuffer := (USBBuffer g)
        (0 := ucast (status x AND 0xFF),
         1 := ucast (drop_bit 8 (status x AND 0xFF00)),
         2 := ucast (drop_bit 16 (status x AND 0xFF0000)),
         3 := ucast (drop_bit 24 (status x AND 0xFF000000)))\<rparr>) x"

subsection \<open>AdiAppErrorHandler and AdiAppStop\<close>

text \<open>
  The loop \<^verbatim>\<open>for(int i = 5; i > 0; i--)\<close> of \<^verbatim>\<open>AdiAppErrorHandler\<close>, started at \<open>i\<close>:
  print the seconds left, sleep one second.
\<close>

fun reboot_countdown :: "env \<Rightarrow> nat \<Rightarrow> world \<Rightarrow> world" where
  "reboot_countdown e 0 w = w"
| "reboot_countdown e (Suc i) w =
     reboot_countdown e i
       (snd (ext e (CyU3PThreadSleep 1000)
          (CyU3PDebugPrint ''Rebooting in %d seconds...'' [ArgWord (of_nat (Suc i))] w)))"

text \<open>
  \<^verbatim>\<open>AdiAppErrorHandler\<close> ends in \<^verbatim>\<open>CyU3PDeviceReset(CyFalse)\<close>, which reboots the device
  into the bootloader: the function does not return. Its value is the world at the reset.
\<close>

definition AdiAppErrorHandler :: "env \<Rightarrow> u32 \<Rightarrow> world \<Rightarrow> world" where
  "AdiAppErrorHandler e st w =
     (let w = CyU3PDebugPrint ''Application failed with fatal error. Error code: 0x%x''
                [ArgWord st] w;
          w = reboot_countdown e 5 w
      in snd (ext e (CyU3PDeviceReset False) w))"

text \<open>
  How a function that may reach \<^verbatim>\<open>AdiAppErrorHandler\<close> ends: the device resets, in the
  world given, or the function returns, in the world given.
\<close>

datatype outcome = resets: DeviceResets (final_world: world) | Returns (final_world: world)

definition and_then :: "outcome \<Rightarrow> (world \<Rightarrow> outcome) \<Rightarrow> outcome" where
  "and_then r f = (case r of DeviceResets w \<Rightarrow> DeviceResets w | Returns w \<Rightarrow> f w)"

text \<open>
  \<^verbatim>\<open>status = CyU3PSetEpConfig(ep, &epConfig); if (status != CY_U3P_SUCCESS)
  AdiAppErrorHandler(status);\<close> with \<^verbatim>\<open>epConfig\<close> zeroed by \<^verbatim>\<open>CyU3PMemSet\<close> and
  \<^verbatim>\<open>epConfig.enable = CyFalse\<close>.
\<close>

definition disable_endpoint :: "fx3_headers \<Rightarrow> env \<Rightarrow> endpoint \<Rightarrow> world \<Rightarrow> outcome" where
  "disable_endpoint c e ep w =
     (let r = ext e (CyU3PSetEpConfig ep False) w
      in if fst r \<noteq> CY_U3P_SUCCESS c
         then DeviceResets (AdiAppErrorHandler e (fst r) (snd r))
         else Returns (snd r))"

definition AdiAppStop :: "fx3_headers \<Rightarrow> env \<Rightarrow> world \<Rightarrow> outcome" where
  "AdiAppStop c e w =
     (let w = CyU3PDebugPrint ''Application stopping!'' [] w;
          w = w\<lparr>globals := (globals w)\<lparr>FX3State := (FX3State (globals w))\<lparr>AppActive := False\<rparr>\<rparr>\<rparr>;
          w = snd (ext e CyU3PUartDeInit w);
          w = snd (ext e CyU3PGpioDeInit w);
          w = snd (ext e CyU3PSpiDeInit w);
          w = snd (ext e (CyU3PEventDestroy EventHandler) w);
          w = snd (ext e (CyU3PEventDestroy GpioHandler) w);
          w = snd (ext e (CyU3PUsbFlushEp ADI_STREAMING_ENDPOINT) w);
          w = snd (ext e (CyU3PUsbFlushEp ADI_FROM_PC_ENDPOINT) w);
          w = snd (ext e (CyU3PUsbFlushEp ADI_TO_PC_ENDPOINT) w);
          w = snd (ext e (CyU3PDmaChannelDestroy ChannelFromPC) w);
          w = snd (ext e (CyU3PDmaChannelDestroy ChannelToPC) w)
      in and_then (disable_endpoint c e ADI_STREAMING_ENDPOINT w)
           (\<lambda>w. and_then (disable_endpoint c e ADI_FROM_PC_ENDPOINT w)
                  (disable_endpoint c e ADI_TO_PC_ENDPOINT)))"

text \<open>The statement \<^verbatim>\<open>AdiAppStop();\<close>: the run ends when \<^verbatim>\<open>AdiAppStop\<close> resets the device.\<close>

definition AdiAppStop_call :: "fx3_headers \<Rightarrow> env \<Rightarrow> stmt" where
  "AdiAppStop_call c e x =
     x\<lparr>wld := final_world (AdiAppStop c e (wld x)),
       halted := resets (AdiAppStop c e (wld x))\<rparr>"

subsection \<open>AdiGetBuildDate and AdiGetBoardPinInfo\<close>

text \<open>
  \<^verbatim>\<open>uint8_t a[n] = "..."\<close>: the bytes of the literal, then zeros. \<^verbatim>\<open>AdiGetBuildDate\<close>
  reads \<^verbatim>\<open>date\<close> below index 11 and \<^verbatim>\<open>time\<close> below index 8.
\<close>

definition array_of_literal :: "u8 list \<Rightarrow> nat \<Rightarrow> u8" where
  "array_of_literal s i = (if i < length s then s ! i else 0)"

definition AdiGetBuildDate :: "fx3_headers \<Rightarrow> (nat \<Rightarrow> u8) \<Rightarrow> (nat \<Rightarrow> u8)" where
  "AdiGetBuildDate c outBuf =
     (let date = array_of_literal (build_DATE c);
          time = array_of_literal (build_TIME c);
          outBuf = fold (\<lambda>index b. b(index := date index)) [0..<11] outBuf;
          outBuf = outBuf(11 := 0x20);
          outBuf = fold (\<lambda>index b. b(index := time (index - 12))) [12..<20] outBuf
      in outBuf(20 := 0))"

definition lo_byte :: "u32 \<Rightarrow> u8" where
  "lo_byte v = ucast (v AND 0xFF)"

definition hi_byte :: "u32 \<Rightarrow> u8" where
  "hi_byte v = ucast (drop_bit 8 (v AND 0xFF00))"

definition AdiGetBoardPinInfo :: "BoardState \<Rightarrow> (nat \<Rightarrow> u8) \<Rightarrow> (nat \<Rightarrow> u8)" where
  "AdiGetBoardPinInfo st outBuf =
     (let pm = PinMap st
      in outBuf
        (0 := lo_byte (BoardType st),
         1 := hi_byte (BoardType st),
         2 := ucast (drop_bit 16 (BoardType st AND 0xFF0000)),
         3 := ucast (drop_bit 24 (BoardType st AND 0xFF000000)),
         4 := lo_byte (ucast (ADI_PIN_RESET pm)),
         5 := hi_byte (ucast (ADI_PIN_RESET pm)),
         6 := lo_byte (ucast (ADI_PIN_DIO1 pm)),
         7 := hi_byte (ucast (ADI_PIN_DIO1 pm)),
         8 := lo_byte (ucast (ADI_PIN_DIO2 pm)),
         9 := hi_byte (ucast (ADI_PIN_DIO2 pm)),
         10 := lo_byte (ucast (ADI_PIN_DIO3 pm)),
         11 := hi_byte (ucast (ADI_PIN_DIO3 pm)),
         12 := lo_byte (ucast (ADI_PIN_DIO4 pm)),
         13 := hi_byte (ucast (ADI_PIN_DIO4 pm)),
         14 := lo_byte (ucast (FX3_PIN_GPIO1 pm)),
         15 := hi_byte (ucast (FX3_PIN_GPIO1 pm)),
         16 := lo_byte (ucast (FX3_PIN_GPIO2 pm)),
         17 := hi_byte (ucast (FX3_PIN_GPIO2 pm)),
         18 := lo_byte (ucast (FX3_PIN_GPIO3 pm)),
         19 := hi_byte (ucast (FX3_PIN_GPIO3 pm)),
         20 := lo_byte (ucast (FX3_PIN_GPIO4 pm)),
         21 := hi_byte (ucast (FX3_PIN_GPIO4 pm))))"

subsection \<open>The vendor request switch\<close>

text \<open>
  The check after each of the four stream switches:
  \<^verbatim>\<open>if (status != CY_U3P_SUCCESS) { isHandled = CyFalse; CyU3PDebugPrint (4, msg, status); }\<close>
\<close>

definition stream_event_check :: "fx3_headers \<Rightarrow> string \<Rightarrow> stmt" where
  "stream_event_check c msg =
     if_stmt (\<lambda>x. status x \<noteq> CY_U3P_SUCCESS c)
       [set_isHandled False, print msg (\<lambda>x. [ArgWord (status x)])] []"

definition unknown_stream_command :: "u16 \<Rightarrow> stmt" where
  "unknown_stream_command wIndex =
     print ''ERROR: Unknown Stream Command: %d'' (\<lambda>x. [ArgWord (ucast wIndex)])"

text \<open>
  \<^verbatim>\<open>switch (bRequest)\<close>: one equation per case label, in the order of main.c; the last
  equation is the default label. The third argument is the label \<open>bRequest\<close> selects.
\<close>

fun vendor_switch ::
  "fx3_headers \<Rightarrow> env \<Rightarrow> vendor_request option \<Rightarrow> u8 \<Rightarrow> u16 \<Rightarrow> u16 \<Rightarrow> u16 \<Rightarrow> stmt" where
  "vendor_switch c e (Some ADI_BUSY_MEASURE) bRequest wValue wIndex wLength =
     block [status_call e (AdiMeasureBusyPulse wLength)]"
| "vendor_switch c e (Some ADI_READ_BYTES) bRequest wValue wIndex wLength =
     block [void_call e (AdiReadRegBytes wIndex)]"
| "vendor_switch c e (Some ADI_WRITE_BYTE) bRequest wValue wIndex wLength =
     block [void_call e (AdiWriteRegByte wIndex (ucast (wValue AND 0xFF)))]"
| "vendor_switch c e (Some ADI_SET_BOOT_TIME) bRequest wValue wIndex wLength =
     block
      [status_call e (CyU3PUsbGetEP0Data wLength USBBuffer_ref),
       on_globals (\<lambda>g. g\<lparr>FX3State := (FX3State g)\<lparr>BootTime := ucast (USBBuffer g 0)\<rparr>\<rparr>),
       on_globals (\<lambda>g. g\<lparr>FX3State := (FX3State g)
          \<lparr>BootTime := BootTime (FX3State g) OR push_bit 8 (ucast (USBBuffer g 1))\<rparr>\<rparr>),
       on_globals (\<lambda>g. g\<lparr>FX3State := (FX3State g)
          \<lparr>BootTime := BootTime (FX3State g) OR push_bit 16 (ucast (USBBuffer g 2))\<rparr>\<rparr>),
       on_globals (\<lambda>g. g\<lparr>FX3State := (FX3State g)
          \<lparr>BootTime := BootTime (FX3State g) OR push_bit 24 (ucast (USBBuffer g 3))\<rparr>\<rparr>),
       if_stmt (\<lambda>x. VERBOSE_MODE c)
         [print ''Boot Time Stamp: %d''
            (\<lambda>x. [ArgWord (BootTime (FX3State (globals (wld x))))])] []]"
| "vendor_switch c e (Some ADI_PULSE_DRIVE) bRequest wValue wIndex wLength =
     block
      [void_call e (CyU3PUsbGetEP0Data wLength USBBuffer_ref),
       status_call e AdiPulseDrive,
       status_to_USBBuffer,
       on_globals (\<lambda>g. g\<lparr>ManualDMABuffer := (ManualDMABuffer g)\<lparr>dma_buffer := Some USBBuffer_ref\<rparr>\<rparr>),
       on_globals (\<lambda>g. g\<lparr>ManualDMABuffer := (ManualDMABuffer g)\<lparr>dma_size := 4096\<rparr>\<rparr>),
       on_globals (\<lambda>g. g\<lparr>ManualDMABuffer := (ManualDMABuffer g)\<lparr>dma_count := 4\<rparr>\<rparr>),
       void_call e (CyU3PDmaChannelSetupSendBuffer ChannelToPC)]"
| "vendor_switch c e (Some ADI_PULSE_WAIT) bRequest wValue wIndex wLength =
     block [status_call e (AdiPulseWait wLength)]"
| "vendor_switch c e (Some ADI_SET_PIN) bRequest wValue wIndex wLength =
     block
      [status_call e (AdiSetPin wIndex (wValue \<noteq> 0)),
       status_to_USBBuffer,
       void_call e (CyU3PUsbSendEP0Data wLength USBBuffer_ref)]"
| "vendor_switch c e (Some ADI_FIRMWARE_ID_CHECK) bRequest wValue wIndex wLength =
     block
      [status_call e (CyU3PUsbSendEP0Data 32 FirmwareID_ref),
       if_stmt (\<lambda>x. status x \<noteq> CY_U3P_SUCCESS c) [set_isHandled False] [],
       if_stmt (\<lambda>x. VERBOSE_MODE c)
         [print ''Firmware ID: %s'' (\<lambda>x. [ArgBuf FirmwareID_ref])] []]"
| "vendor_switch c e (Some ADI_SERIAL_NUMBER_CHECK) bRequest wValue wIndex wLength =
     block
      [status_call e (CyU3PUsbSendEP0Data 32 serial_number_ref),
       if_stmt (\<lambda>x. status x \<noteq> CY_U3P_SUCCESS c) [set_isHandled False] []]"
| "vendor_switch c e (Some ADI_GET_BUILD_DATE) bRequest wValue wIndex wLength =
     block
      [on_globals (\<lambda>g. g\<lparr>USBBuffer := AdiGetBuildDate c (USBBuffer g)\<rparr>),
       void_call e (CyU3PUsbSendEP0Data wLength USBBuffer_ref),
       set_isHandled True]"
| "vendor_switch c e (Some ADI_HARD_RESET) bRequest wValue wIndex wLength =
     block
      [void_call e CyU3PUsbAckSetup,
       void_call e (CyU3PUsbGetEP0Data wLength USBBuffer_ref),
       if_stmt (\<lambda>x. VERBOSE_MODE c) [print ''Rebooting FX3!'' (\<lambda>x. [])] [],
       void_call e (CyU3PThreadSleep 500),
       void_call e (CyU3PConnectState False True),
       AdiAppStop_call c e,
       void_call e CyU3PPibDeInit,
       void_call e (CyU3PThreadSleep 500),
       device_reset e False]"
| "vendor_switch c e (Some ADI_WARM_RESET) bRequest wValue wIndex wLength =
     block
      [void_call e CyU3PUsbAckSetup,
       void_call e (CyU3PUsbGetEP0Data wLength USBBuffer_ref),
       void_call e (CyU3PThreadSleep 500),
       void_call e (CyU3PConnectState False True),
       AdiAppStop_call c e,
       void_call e CyU3PPibDeInit,
       void_call e (CyU3PThreadSleep 500),
       device_reset e True]"
| "vendor_switch c e (Some ADI_SET_SPI_CONFIG) bRequest wValue wIndex wLength =
     block [isHandled_call e (AdiSpiUpdate wIndex wValue wLength)]"
| "vendor_switch c e (Some ADI_READ_PIN) bRequest wValue wIndex wLength =
     block
      [status_call e (AdiPinRead wIndex),
       if_stmt (\<lambda>x. status x \<noteq> CY_U3P_SUCCESS c) [set_isHandled False] []]"
| "vendor_switch c e (Some ADI_PIN_DELAY_MEASURE) bRequest wValue wIndex wLength =
     block
      [status_call e (AdiMeasurePinDelay wLength),
       if_stmt (\<lambda>x. status x \<noteq> CY_U3P_SUCCESS c) [set_isHandled False] []]"
| "vendor_switch c e (Some ADI_READ_SPI_CONFIG) bRequest wValue wIndex wLength =
     block
      [status_call e AdiGetSpiSettings,
       if_stmt (\<lambda>x. status x \<noteq> CY_U3P_SUCCESS c) [set_isHandled False] []]"
| "vendor_switch c e (Some ADI_READ_TIMER_VALUE) bRequest wValue wIndex wLength =
     block
      [status_call e AdiReadTimerValue,
       if_stmt (\<lambda>x. status x \<noteq> CY_U3P_SUCCESS c) [set_isHandled False] []]"
| "vendor_switch c e (Some ADI_SET_DUT_SUPPLY) bRequest wValue wIndex wLength =
     block
      [set_isHandled True,
       status_call e (AdiSetDutSupply wValue),
       status_to_USBBuffer,
       void_call e (CyU3PUsbSendEP0Data wLength USBBuffer_ref)]"
| "vendor_switch c e (Some ADI_GET_STATUS) bRequest wValue wIndex wLength =
     block
      [status_to_USBBuffer,
       on_globals (\<lambda>g. g\<lparr>USBBuffer := (USBBuffer g)(4 := 0)\<rparr>),
       if_stmt (\<lambda>x. VERBOSE_MODE c)
         [on_globals (\<lambda>g. g\<lparr>USBBuffer := (USBBuffer g)(4 := 1)\<rparr>)] [],
       void_call e (CyU3PUsbSendEP0Data wLength USBBuffer_ref)]"
| "vendor_switch c e (Some ADI_GET_BOARD_TYPE) bRequest wValue wIndex wLength =
     block
      [on_globals (\<lambda>g. g\<lparr>USBBuffer := AdiGetBoardPinInfo (FX3State g) (USBBuffer g)\<rparr>),
       void_call e (CyU3PUsbSendEP0Data wLength USBBuffer_ref),
       set_isHandled True]"
| "vendor_switch c e (Some ADI_STREAM_GENERIC_DATA) bRequest wValue wIndex wLength =
     block
      [if wIndex = ADI_STREAM_START_CMD then
         block
          [void_call e (CyU3PUsbGetEP0Data wLength USBBuffer_ref),
           status_call e (CyU3PEventSet EventHandler ADI_GENERIC_STREAM_START),
           on_globals (\<lambda>g. g\<lparr>StreamThreadState :=
              (StreamThreadState g)\<lparr>TransferByteLength := wLength\<rparr>\<rparr>)]
       else if wIndex = ADI_STREAM_DONE_CMD then
         block
          [void_call e (CyU3PUsbGetEP0Data wLength USBBuffer_ref),
           status_call e (CyU3PEventSet EventHandler ADI_GENERIC_STREAM_DONE)]
       else if wIndex = ADI_STREAM_STOP_CMD then
         block [status_call e (CyU3PEventSet EventHandler ADI_GENERIC_STREAM_STOP)]
       else unknown_stream_command wIndex,
       stream_event_check c ''Setting generic stream event failed, Error code = %x'']"
| "vendor_switch c e (Some ADI_STREAM_BURST_DATA) bRequest wValue wIndex wLength =
     block
      [if wIndex = ADI_STREAM_START_CMD then
         block
          [on_globals (\<lambda>g. g\<lparr>StreamThreadState :=
              (StreamThreadState g)\<lparr>TransferWordLength := wLength\<rparr>\<rparr>),
           status_call e (CyU3PEventSet EventHandler ADI_BURST_STREAM_START)]
       else if wIndex = ADI_STREAM_DONE_CMD then
         block
          [void_call e (CyU3PUsbGetEP0Data wLength USBBuffer_ref),
           status_call e (CyU3PEventSet EventHandler ADI_BURST_STREAM_DONE)]
       else if wIndex = ADI_STREAM_STOP_CMD then
         block [status_call e (CyU3PEventSet EventHandler ADI_BURST_STREAM_STOP)]
       else unknown_stream_command wIndex,
       stream_event_check c ''Setting burst stream event failed, Error code = %x'']"
| "vendor_switch c e (Some ADI_STREAM_REALTIME) bRequest wValue wIndex wLength =
     block
      [if wIndex = ADI_STREAM_START_CMD then
         block
          [on_globals (\<lambda>g. g\<lparr>StreamThreadState :=
              (StreamThreadState g)\<lparr>PinExitEnable := (wValue \<noteq> 0)\<rparr>\<rparr>),
           status_call e (CyU3PEventSet EventHandler ADI_RT_STREAM_START)]
       else if wIndex = ADI_STREAM_DONE_CMD then
         block
          [void_call e (CyU3PUsbGetEP0Data wLength USBBuffer_ref),
           status_call e (CyU3PEventSet EventHandler ADI_RT_STREAM_DONE)]
       else if wIndex = ADI_STREAM_STOP_CMD then
         block [status_call e (CyU3PEventSet EventHandler ADI_RT_STREAM_STOP)]
       else unknown_stream_command wIndex,
       stream_event_check c ''Setting real time stream event failed, Error code = %x'']"
| "vendor_switch c e (Some ADI_TRANSFER_STREAM) bRequest wValue wIndex wLength =
     block
      [if wIndex = ADI_STREAM_START_CMD then
         block
          [status_call e (CyU3PEventSet EventHandler ADI_TRANSFER_STREAM_START),
           on_globals (\<lambda>g. g\<lparr>StreamThreadState :=
              (StreamThreadState g)\<lparr>TransferByteLength := wLength\<rparr>\<rparr>)]
       else if wIndex = ADI_STREAM_DONE_CMD then
         block
          [void_call e (CyU3PUsbGetEP0Data wLength USBBuffer_ref),
           status_call e (CyU3PEventSet EventHandler ADI_TRANSFER_STREAM_DONE)]
       else if wIndex = ADI_STREAM_STOP_CMD then
         block [status_call e (CyU3PEventSet EventHandler ADI_TRANSFER_STREAM_STOP)]
       else unknown_stream_command wIndex,
       stream_event_check c ''Setting real time stream event failed, Error code = %x'']"
| "vendor_switch c e (Some ADI_MEASURE_DR) bRequest wValue wIndex wLength =
     block
      [void_call e (CyU3PUsbGetEP0Data wLength USBBuffer_ref),
       status_call e AdiMeasurePinFreq]"
| "vendor_switch c e (Some ADI_PWM_CMD) bRequest wValue wIndex wLength =
     block
      [void_call e (CyU3PUsbGetEP0Data wLength USBBuffer_ref),
       status_call e (AdiConfigurePWM (wIndex \<noteq> 0))]"
| "vendor_switch c e (Some ADI_TRANSFER_BYTES) bRequest wValue wIndex wLength =
     block [status_call e (AdiTransferBytes (push_bit 16 (ucast wIndex) OR ucast wValue))]"
| "vendor_switch c e (Some ADI_BITBANG_SPI) bRequest wValue wIndex wLength =
     block
      [void_call e (CyU3PUsbGetEP0Data wLength USBBuffer_ref),
       status_call e AdiBitBangSpiHandler]"
| "vendor_switch c e (Some ADI_RESET_SPI) bRequest wValue wIndex wLength =
     block
      [status_call e AdiRestartSpi,
       status_to_USBBuffer,
       void_call e (CyU3PUsbSendEP0Data wLength USBBuffer_ref)]"
| "vendor_switch c e (Some ADI_SET_PIN_RESISTOR) bRequest wValue wIndex wLength =
     block
      [status_call e (AdiSetPinResistor wIndex wValue),
       status_to_USBBuffer,
       void_call e (CyU3PUsbSendEP0Data wLength USBBuffer_ref),
       void_call e (AdiLogError 604 wIndex)]"
| "vendor_switch c e (Some ADI_NULL_COMMAND) bRequest wValue wIndex wLength =
     block [set_isHandled True]"
| "vendor_switch c e (Some ADI_READ_FLASH) bRequest wValue wIndex wLength =
     block
      [void_call e (AdiFlashReadHandler (push_bit 16 (ucast wIndex) OR ucast wValue) wLength),
       set_isHandled True]"
| "vendor_switch c e (Some ADI_CLEAR_FLASH_LOG) bRequest wValue wIndex wLength =
     block
      [void_call e (WriteErrorLogCount 0),
       void_call e (CyU3PUsbGetEP0Data wLength USBBuffer_ref)]"
| "vendor_switch c e None bRequest wValue wIndex wLength =
     block
      [if_stmt (\<lambda>x. VERBOSE_MODE c)
         [print ''ERROR: Un-handled vendor command 0x%x'' (\<lambda>x. [ArgWord (ucast bRequest)])] [],
       set_isHandled False]"

subsection \<open>AdiControlEndpointHandler\<close>

text \<open>The fields decoded from the two setup words, with the truncation of their C types.\<close>

definition bReqType_of :: "fx3_headers \<Rightarrow> u32 \<Rightarrow> u8" where
  "bReqType_of c setupdat0 = ucast (setupdat0 AND CY_U3P_USB_REQUEST_TYPE_MASK c)"

definition bType_of :: "fx3_headers \<Rightarrow> u32 \<Rightarrow> u8" where
  "bType_of c setupdat0 = ucast (ucast (bReqType_of c setupdat0) AND CY_U3P_USB_TYPE_MASK c)"

definition bTarget_of :: "fx3_headers \<Rightarrow> u32 \<Rightarrow> u8" where
  "bTarget_of c setupdat0 =
     ucast (ucast (bReqType_of c setupdat0) AND CY_U3P_USB_TARGET_MASK c)"

definition bRequest_of :: "fx3_headers \<Rightarrow> u32 \<Rightarrow> u8" where
  "bRequest_of c setupdat0 =
     ucast (drop_bit (CY_U3P_USB_REQUEST_POS c) (setupdat0 AND CY_U3P_USB_REQUEST_MASK c))"

definition wValue_of :: "fx3_headers \<Rightarrow> u32 \<Rightarrow> u16" where
  "wValue_of c setupdat0 =
     ucast (drop_bit (CY_U3P_USB_VALUE_POS c) (setupdat0 AND CY_U3P_USB_VALUE_MASK c))"

definition wIndex_of :: "fx3_headers \<Rightarrow> u32 \<Rightarrow> u16" where
  "wIndex_of c setupdat1 =
     ucast (drop_bit (CY_U3P_USB_INDEX_POS c) (setupdat1 AND CY_U3P_USB_INDEX_MASK c))"

definition wLength_of :: "fx3_headers \<Rightarrow> u32 \<Rightarrow> u16" where
  "wLength_of c setupdat1 =
     ucast (drop_bit (CY_U3P_USB_LENGTH_POS c) (setupdat1 AND CY_U3P_USB_LENGTH_MASK c))"

text \<open>
  The body of \<^verbatim>\<open>if (bType == CY_U3P_USB_STANDARD_RQT)\<close>, which stands inside the
  vendor request branch, after the switch.
\<close>

definition standard_request_body :: "fx3_headers \<Rightarrow> env \<Rightarrow> u8 \<Rightarrow> u8 \<Rightarrow> u16 \<Rightarrow> stmt" where
  "standard_request_body c e bTarget bRequest wValue =
     block
      [if_stmt (\<lambda>x. ucast bTarget = CY_U3P_USB_TARGET_INTF c
                  \<and> (ucast bRequest = CY_U3P_USB_SC_SET_FEATURE c
                      \<or> ucast bRequest = CY_U3P_USB_SC_CLEAR_FEATURE c)
                  \<and> wValue = 0)
         [if_stmt (\<lambda>x. AppActive (FX3State (globals (wld x))))
            [void_call e CyU3PUsbAckSetup]
            [void_call e (CyU3PUsbStall 0 True False)],
          set_isHandled True] [],
       if_stmt (\<lambda>x. ucast bTarget = CY_U3P_USB_TARGET_ENDPT c) [set_isHandled True] []]"

text \<open>
  The handler with the body of the standard request branch as a parameter \<open>std\<close>, so
  that a statement can say whether the result depends on that body. The result is the
  value returned, \<open>Some\<close> of \<^verbatim>\<open>isHandled\<close>, or \<open>None\<close> when the device was reset and
  the handler did not return, and the world at the return or at the reset.
\<close>

definition handler_with ::
  "(u8 \<Rightarrow> u8 \<Rightarrow> u16 \<Rightarrow> stmt) \<Rightarrow> fx3_headers \<Rightarrow> env \<Rightarrow> u32 \<Rightarrow> u32 \<Rightarrow> world
     \<Rightarrow> bool option \<times> world" where
  "handler_with std c e setupdat0 setupdat1 w =
     (let bType = bType_of c setupdat0;
          bTarget = bTarget_of c setupdat0;
          bRequest = bRequest_of c setupdat0;
          wValue = wValue_of c setupdat0;
          wIndex = wIndex_of c setupdat1;
          wLength = wLength_of c setupdat1;
          x = \<lparr>isHandled = False, status = CY_U3P_SUCCESS c, wld = w, halted = False\<rparr>;
          x = if_stmt (\<lambda>x. ucast bType = CY_U3P_USB_VENDOR_RQT c)
                [set_isHandled True,
                 if_stmt (\<lambda>x. VERBOSE_MODE c)
                   [print ''Vendor request = 0x%x'' (\<lambda>x. [ArgWord (ucast bRequest)])] [],
                 vendor_switch c e (vendor_request_of c bRequest) bRequest wValue wIndex wLength,
                 if_stmt (\<lambda>x. ucast bType = CY_U3P_USB_STANDARD_RQT c)
                   [std bTarget bRequest wValue] [],
                 if_stmt (\<lambda>x. status x \<noteq> CY_U3P_SUCCESS c) [set_isHandled False] []]
                [] x
      in (if halted x then None else Some (isHandled x), wld x))"

definition AdiControlEndpointHandler ::
  "fx3_headers \<Rightarrow> env \<Rightarrow> u32 \<Rightarrow> u32 \<Rightarrow> world \<Rightarrow> bool option \<times> world" where
  "AdiControlEndpointHandler c e = handler_with (standard_request_body c e) c e"

text \<open>
  Inside the vendor request branch: the locals after the switch. When the request type
  is vendor and differs from standard, the handler ends in the world of this frame; it
  returns \<open>isHandled\<close> of this frame, lowered to false when \<open>status\<close> is not success,
  unless the frame is halted (lemma \<open>handler_vendor\<close>).
\<close>

definition vendor_frame :: "fx3_headers \<Rightarrow> env \<Rightarrow> u32 \<Rightarrow> u32 \<Rightarrow> world \<Rightarrow> frame" where
  "vendor_frame c e setupdat0 setupdat1 w =
     vendor_switch c e (vendor_request_of c (bRequest_of c setupdat0)) (bRequest_of c setupdat0)
       (wValue_of c setupdat0) (wIndex_of c setupdat1) (wLength_of c setupdat1)
       \<lparr>isHandled = True, status = CY_U3P_SUCCESS c,
        wld = (if VERBOSE_MODE c
               then CyU3PDebugPrint ''Vendor request = 0x%x''
                      [ArgWord (ucast (bRequest_of c setupdat0))] w
               else w),
        halted = False\<rparr>"

subsection \<open>Observations on a run\<close>

text \<open>
  \<^verbatim>\<open>AdiAppErrorHandler\<close> is the only function that prints the fatal error line, and it
  prints it first: it ran between \<open>w\<close> and \<open>w'\<close> exactly when the line was printed.
\<close>

definition fatal_handler_ran :: "world \<Rightarrow> world \<Rightarrow> bool" where
  "fatal_handler_ran w w' =
     (''Application failed with fatal error. Error code: 0x%x''
        \<in> set (map fst (lines_printed w w')))"

text \<open>The first four bytes of \<^verbatim>\<open>USBBuffer\<close>, and a 32-bit status as four bytes, byte 0 = LSB.\<close>

definition status_payload :: "globals \<Rightarrow> u8 list" where
  "status_payload g = [USBBuffer g 0, USBBuffer g 1, USBBuffer g 2, USBBuffer g 3]"

definition le_bytes :: "u32 \<Rightarrow> u8 list" where
  "le_bytes v = [ucast v, ucast (drop_bit 8 v), ucast (drop_bit 16 v), ucast (drop_bit 24 v)]"

text \<open>Two worlds that differ in the debug log at most.\<close>

definition agree :: "world \<Rightarrow> world \<Rightarrow> bool" where
  "agree w w' = (globals w = globals w' \<and> trace w = trace w')"

subsection \<open>A concrete build, environment and world\<close>

text \<open>
  The theorems below hold for every value of the header constants. To run the handler
  on concrete setup words, \<open>fx3_build\<close> fixes them: the setup packet layout of USB
  (request type in bits 0 to 7 of the first word, request in bits 8 to 15, value in bits
  16 to 31; index in bits 0 to 15 of the second word, length in bits 16 to 31), request
  type vendor = 0x40 and standard = 0x00 under the mask 0x60, success = 0, a build
  without \<^verbatim>\<open>VERBOSE_MODE\<close>, compiled at "Aug  1 2019", "12:00:00", and one injective table of
  request codes.
\<close>

definition request_codes :: "(u8 \<times> vendor_request) list" where
  "request_codes =
     [(0xB0, ADI_FIRMWARE_ID_CHECK), (0xB1, ADI_HARD_RESET), (0xB2, ADI_SET_SPI_CONFIG),
      (0xB3, ADI_READ_SPI_CONFIG), (0xB4, ADI_GET_STATUS), (0xB5, ADI_SERIAL_NUMBER_CHECK),
      (0xB6, ADI_WARM_RESET), (0xB7, ADI_SET_DUT_SUPPLY), (0xB8, ADI_GET_BUILD_DATE),
      (0xB9, ADI_SET_BOOT_TIME), (0xBA, ADI_GET_BOARD_TYPE), (0xBB, ADI_SET_PIN_RESISTOR),
      (0xBC, ADI_NULL_COMMAND), (0xBD, ADI_READ_FLASH), (0xBE, ADI_CLEAR_FLASH_LOG),
      (0xC0, ADI_STREAM_GENERIC_DATA), (0xC1, ADI_STREAM_BURST_DATA), (0xC3, ADI_READ_PIN),
      (0xC4, ADI_READ_TIMER_VALUE), (0xC5, ADI_PULSE_DRIVE), (0xC6, ADI_PULSE_WAIT),
      (0xC7, ADI_SET_PIN), (0xC8, ADI_MEASURE_DR), (0xC9, ADI_PWM_CMD),
      (0xCA, ADI_TRANSFER_BYTES), (0xCC, ADI_TRANSFER_STREAM), (0xCD, ADI_BITBANG_SPI),
      (0xCE, ADI_RESET_SPI), (0xCF, ADI_PIN_DELAY_MEASURE), (0xD0, ADI_STREAM_REALTIME),
      (0xF0, ADI_READ_BYTES), (0xF1, ADI_WRITE_BYTE), (0xF2, ADI_BUSY_MEASURE)]"

definition fx3_build :: fx3_headers where
  "fx3_build =
     \<lparr>CY_U3P_USB_REQUEST_TYPE_MASK = 0x000000FF,
      CY_U3P_USB_TYPE_MASK = 0x60,
      CY_U3P_USB_TARGET_MASK = 0x03,
      CY_U3P_USB_REQUEST_MASK = 0x0000FF00,
      CY_U3P_USB_REQUEST_POS = 8,
      CY_U3P_USB_VALUE_MASK = 0xFFFF0000,
      CY_U3P_USB_VALUE_POS = 16,
      CY_U3P_USB_INDEX_MASK = 0x0000FFFF,
      CY_U3P_USB_INDEX_POS = 0,
      CY_U3P_USB_LENGTH_MASK = 0xFFFF0000,
      CY_U3P_USB_LENGTH_POS = 16,
      CY_U3P_USB_VENDOR_RQT = 0x40,
      CY_U3P_USB_STANDARD_RQT = 0x00,
      CY_U3P_USB_TARGET_INTF = 0x01,
      CY_U3P_USB_TARGET_ENDPT = 0x02,
      CY_U3P_USB_SC_SET_FEATURE = 0x03,
      CY_U3P_USB_SC_CLEAR_FEATURE = 0x01,
      CY_U3P_SUCCESS = 0,
      vendor_request_of = map_of request_codes,
      VERBOSE_MODE = False,
      build_DATE = [0x41, 0x75, 0x67, 0x20, 0x20, 0x31, 0x20, 0x32, 0x30, 0x31, 0x39],
      build_TIME = [0x31, 0x32, 0x3A, 0x30, 0x30, 0x3A, 0x30, 0x30]\<rparr>"

text \<open>An environment where every call succeeds and leaves the globals as they are.\<close>

definition env_ok :: env where
  "env_ok h cl g = (0, g)"

text \<open>An environment where the calls in \<open>bad\<close> return \<open>st\<close> and every other call succeeds.\<close>

definition env_failing :: "call set \<Rightarrow> u32 \<Rightarrow> env" where
  "env_failing bad st h cl g = (if cl \<in> bad then st else 0, g)"

definition globals0 :: globals where
  "globals0 =
     \<lparr>FX3State =
        \<lparr>BootTime = 0, WatchDogEnabled = False, WatchDogPeriodMs = 0, WatchDogTicks = 0,
         BoardType = 0,
         PinMap = \<lparr>ADI_PIN_RESET = 0, ADI_PIN_DIO1 = 4, ADI_PIN_DIO2 = 3, ADI_PIN_DIO3 = 2,
                   ADI_PIN_DIO4 = 1, FX3_PIN_GPIO1 = 5, FX3_PIN_GPIO2 = 6, FX3_PIN_GPIO3 = 7,
                   FX3_PIN_GPIO4 = 12\<rparr>,
         AppActive = True, UsbBufferSize = 1024, TimerPinConfig = 0, StallTime = 25,
         DutType = 0, DrPin = 3, DrActive = True, DrPolarity = True,
         SpiConfig = \<lparr>isLsbFirst = False, cpol = True, ssnPol = False, cpha = True,
                      leadTime = 0, lagTime = 0, ssnCtrl = 0, clock = 2000000, wordLen = 8\<rparr>\<rparr>,
      StreamThreadState =
        \<lparr>TransferByteLength = 0, TransferWordLength = 0, PinExitEnable = False\<rparr>,
      KillStreamEarly = False,
      USBBuffer = (\<lambda>i. 0xAA),
      ManualDMABuffer = \<lparr>dma_buffer = None, dma_size = 0, dma_count = 0\<rparr>\<rparr>"

definition world0 :: world where
  "world0 = \<lparr>globals = globals0, trace = [], debug_log = []\<rparr>"

section \<open>The bit-bang SPI transfer\<close>

text \<open>\<^verbatim>\<open>struct BitBangSpiConf\<close> and \<^verbatim>\<open>BITBANG_HALFCLOCK_OFFSET\<close> of SpiFunctions.h.\<close>

record BitBangSpiConf =
  MOSI :: u8
  MISO :: u8
  CS :: u8
  SCLK :: u8
  HalfClockDelay :: u32
  CSLeadDelay :: u16
  CSLagDelay :: u16

definition BITBANG_HALFCLOCK_OFFSET :: nat where
  "BITBANG_HALFCLOCK_OFFSET = 8"

text \<open>
  What the transfer does to the pins, step by step. \<open>Wait k\<close> is a busy-wait of \<open>k\<close>
  ticks; the other steps take no modelled time, so a sum of waits is a lower bound of the
  time that passes.
\<close>

datatype pin_step =
    AssertCS | DeassertCS | DriveMOSI bool | ToggleClock | SampleMISO | ToggleClockBack
  | Wait nat

text \<open>
  Modelled from the spec: the body of \<^verbatim>\<open>AdiBitBangSpiTransfer\<close>, which SpiFunctions.h
  declares and SpiFunctions.c (not among the sources) defines. Section 4.3 gives the
  per-bit sequence "drive MOSI, wait half-period, toggle clock, sample MISO, wait
  half-period, toggle clock back", repeated \<^verbatim>\<open>bitCount\<close> times, between a dwell of
  \<^verbatim>\<open>CSLeadDelay\<close> after asserting chip-select and a dwell of \<^verbatim>\<open>CSLagDelay\<close> before
  de-asserting it, with a fixed offset added to the shorter half. The spec does not say
  which half is the shorter one: \<open>first_half_short\<close> chooses.
\<close>

definition bit_steps :: "bool \<Rightarrow> BitBangSpiConf \<Rightarrow> bool \<Rightarrow> pin_step list" where
  "bit_steps first_half_short config b =
     [DriveMOSI b,
      Wait (unat (HalfClockDelay config)
            + (if first_half_short then BITBANG_HALFCLOCK_OFFSET else 0)),
      ToggleClock,
      SampleMISO,
      Wait (unat (HalfClockDelay config)
            + (if first_half_short then 0 else BITBANG_HALFCLOCK_OFFSET)),
      ToggleClockBack]"

definition AdiBitBangSpiTransfer ::
  "bool \<Rightarrow> (nat \<Rightarrow> bool) \<Rightarrow> u32 \<Rightarrow> BitBangSpiConf \<Rightarrow> pin_step list" where
  "AdiBitBangSpiTransfer first_half_short MOSI_bits BitCount config =
     [AssertCS, Wait (unat (CSLeadDelay config))]
     @ concat (map (\<lambda>k. bit_steps first_half_short config (MOSI_bits k)) [0..<unat BitCount])
     @ [Wait (unat (CSLagDelay config)), DeassertCS]"

primrec ticks :: "pin_step \<Rightarrow> nat" where
  "ticks AssertCS = 0"
| "ticks DeassertCS = 0"
| "ticks (DriveMOSI b) = 0"
| "ticks ToggleClock = 0"
| "ticks SampleMISO = 0"
| "ticks ToggleClockBack = 0"
| "ticks (Wait k) = k"

definition drives_MOSI :: "pin_step \<Rightarrow> bool" where
  "drives_MOSI s = (case s of DriveMOSI b \<Rightarrow> True | _ \<Rightarrow> False)"

text \<open>The ticks waited from the first \<open>AssertCS\<close> to the first \<open>DeassertCS\<close> after it.\<close>

definition cs_asserted_ticks :: "pin_step list \<Rightarrow> nat" where
  "cs_asserted_ticks steps =
     sum_list (map ticks
       (takeWhile (\<lambda>s. s \<noteq> DeassertCS) (dropWhile (\<lambda>s. s \<noteq> AssertCS) steps)))"

section \<open>Lemmas on statements and external calls\<close>

lemmas stmt_defs = if_stmt_def status_call_def void_call_def isHandled_call_def
  set_isHandled_def print_def on_globals_def status_to_USBBuffer_def
  stream_event_check_def unknown_stream_command_def CyU3PDebugPrint_def

lemmas handler_defs = AdiControlEndpointHandler_def handler_with_def Let_def

lemmas stream_cmd_defs = ADI_STREAM_START_CMD_def ADI_STREAM_DONE_CMD_def ADI_STREAM_STOP_CMD_def

lemma ext_fst: "fst (ext e cl w) = fst (e (trace w) cl (globals w))"
  by (simp add: ext_def Let_def)

lemma ext_globals: "globals (snd (ext e cl w)) = snd (e (trace w) cl (globals w))"
  by (simp add: ext_def Let_def)

lemma ext_trace:
  "trace (snd (ext e cl w)) =
     trace w @ [\<lparr>ev_call = cl, ev_globals = globals w, ev_ret = fst (ext e cl w)\<rparr>]"
  by (simp add: ext_def Let_def)

lemma ext_debug_log: "debug_log (snd (ext e cl w)) = debug_log w"
  by (simp add: ext_def Let_def)


lemma handler_vendor:
  assumes "ucast (bType_of c setupdat0) = CY_U3P_USB_VENDOR_RQT c"
    and "CY_U3P_USB_VENDOR_RQT c \<noteq> CY_U3P_USB_STANDARD_RQT c"
  shows "handler_with std c e setupdat0 setupdat1 w =
           (if halted (vendor_frame c e setupdat0 setupdat1 w) then None
            else Some (isHandled (vendor_frame c e setupdat0 setupdat1 w)
                   \<and> status (vendor_frame c e setupdat0 setupdat1 w) = CY_U3P_SUCCESS c),
            wld (vendor_frame c e setupdat0 setupdat1 w))"
  using assms
  by (simp add: handler_with_def vendor_frame_def Let_def if_stmt_def set_isHandled_def
      print_def)



lemma pack_hi: "ucast (drop_bit 16 (push_bit 16 (ucast (i::u16)) OR (ucast (v::u16) :: u32))) = i"
  by (rule bit_word_eqI) (auto simp add: bit_simps dest: bit_imp_le_length)

lemma pack_lo: "ucast (push_bit 16 (ucast (i::u16)) OR (ucast (v::u16) :: u32)) = v"
  by (rule bit_word_eqI) (auto simp add: bit_simps)

lemma byte_masks:
  "(0xFF :: u32) = mask 8" "(0xFF00 :: u32) = push_bit 8 (mask 8)"
  "(0xFF0000 :: u32) = push_bit 16 (mask 8)" "(0xFF000000 :: u32) = push_bit 24 (mask 8)"
  by (simp_all add: mask_eq_exp_minus_1 push_bit_eq_mult)

lemma byte0: "(ucast (s AND 0xFF :: u32) :: u8) = ucast s"
  unfolding byte_masks by (rule bit_word_eqI) (auto simp add: bit_simps)

lemma byte1: "(ucast (drop_bit 8 (s AND 0xFF00 :: u32)) :: u8) = ucast (drop_bit 8 s)"
  unfolding byte_masks by (rule bit_word_eqI) (auto simp add: bit_simps)

lemma byte2: "(ucast (drop_bit 16 (s AND 0xFF0000 :: u32)) :: u8) = ucast (drop_bit 16 s)"
  unfolding byte_masks by (rule bit_word_eqI) (auto simp add: bit_simps)

lemma byte3: "(ucast (drop_bit 24 (s AND 0xFF000000 :: u32)) :: u8) = ucast (drop_bit 24 s)"
  unfolding byte_masks by (rule bit_word_eqI) (auto simp add: bit_simps)

lemma stream_frame:
  assumes req: "vendor_request_of c (bRequest_of c setupdat0) = Some r"
    and fam: "r \<in> {ADI_STREAM_GENERIC_DATA, ADI_STREAM_BURST_DATA, ADI_STREAM_REALTIME,
                   ADI_TRANSFER_STREAM}"
    and sub: "wIndex_of c setupdat1 \<in>
                {ADI_STREAM_START_CMD, ADI_STREAM_DONE_CMD, ADI_STREAM_STOP_CMD}"
  shows "\<not> halted (vendor_frame c e setupdat0 setupdat1 w)
    \<and> calls_made w (wld (vendor_frame c e setupdat0 setupdat1 w)) \<noteq> []
    \<and> ev_ret (last (calls_made w (wld (vendor_frame c e setupdat0 setupdat1 w))))
           = status (vendor_frame c e setupdat0 setupdat1 w)
    \<and> (\<forall>x \<in> set (butlast (calls_made w (wld (vendor_frame c e setupdat0 setupdat1 w)))).
           ev_call x = CyU3PUsbGetEP0Data (wLength_of c setupdat1) USBBuffer_ref)
    \<and> (status (vendor_frame c e setupdat0 setupdat1 w) \<noteq> CY_U3P_SUCCESS c \<longrightarrow>
           (\<exists>msg. (msg, [ArgWord (status (vendor_frame c e setupdat0 setupdat1 w))])
             \<in> set (lines_printed w (wld (vendor_frame c e setupdat0 setupdat1 w)))))"
  using fam sub req
  apply (elim insertE emptyE)
             apply (simp_all add: vendor_frame_def stmt_defs stream_cmd_defs Let_def
      calls_made_def lines_printed_def ext_fst ext_trace ext_debug_log)
             apply blast+
  done

section \<open>Properties of the control endpoint handler\<close>

text \<open>
  C1. A vendor request whose code is none of the case labels: the handler returns
  \<^verbatim>\<open>CyFalse\<close>, leaves every global as it was (\<^verbatim>\<open>FX3State\<close> and \<^verbatim>\<open>StreamThreadState\<close>
  among them) and makes no call at all, so it raises no event bit. In a build with
  \<^verbatim>\<open>VERBOSE_MODE\<close> it prints two debug lines; otherwise none.
\<close>

theorem C1_unknown_request_not_handled:
  assumes "ucast (bType_of c setupdat0) = CY_U3P_USB_VENDOR_RQT c"
    and "CY_U3P_USB_VENDOR_RQT c \<noteq> CY_U3P_USB_STANDARD_RQT c"
    and "vendor_request_of c (bRequest_of c setupdat0) = None"
    and "AdiControlEndpointHandler c e setupdat0 setupdat1 w = (h, w')"
  shows "h = Some False \<and> globals w' = globals w \<and> calls_made w w' = []
       \<and> lines_printed w w' =
           (if VERBOSE_MODE c
            then [(''Vendor request = 0x%x'', [ArgWord (ucast (bRequest_of c setupdat0))]),
                  (''ERROR: Un-handled vendor command 0x%x'',
                   [ArgWord (ucast (bRequest_of c setupdat0))])]
            else [])"
proof -
  let ?F = "vendor_frame c e setupdat0 setupdat1 w"
  from assms(4) have h: "h = (if halted ?F then None
      else Some (isHandled ?F \<and> status ?F = CY_U3P_SUCCESS c))"
    and w': "w' = wld ?F"
    by (simp_all add: AdiControlEndpointHandler_def handler_vendor [OF assms(1,2)])
  from assms(3) show ?thesis
    unfolding h w'
    by (simp add: vendor_frame_def stmt_defs calls_made_def lines_printed_def)
qed

theorem C1_unknown_request_witness:
  "ucast (bType_of fx3_build 0xFF40) = CY_U3P_USB_VENDOR_RQT fx3_build
   \<and> vendor_request_of fx3_build (bRequest_of fx3_build 0xFF40) = None
   \<and> fst (AdiControlEndpointHandler fx3_build env_ok 0xFF40 0 world0) = Some False
   \<and> globals (snd (AdiControlEndpointHandler fx3_build env_ok 0xFF40 0 world0)) = globals world0
   \<and> calls_made world0 (snd (AdiControlEndpointHandler fx3_build env_ok 0xFF40 0 world0)) = []"
proof -
  have a: "ucast (bType_of fx3_build 0xFF40) = CY_U3P_USB_VENDOR_RQT fx3_build"
    by (simp add: bType_of_def bReqType_of_def fx3_build_def)
  have b: "CY_U3P_USB_VENDOR_RQT fx3_build \<noteq> CY_U3P_USB_STANDARD_RQT fx3_build"
    by (simp add: fx3_build_def)
  have c: "vendor_request_of fx3_build (bRequest_of fx3_build 0xFF40) = None"
    by (simp add: bRequest_of_def fx3_build_def request_codes_def)
  from C1_unknown_request_not_handled [OF a b c surjective_pairing] a c
  show ?thesis by simp
qed

text \<open>
  C3. In each of the four stream families and each of the sub-operations Start, Done and
  Stop: when the \<^verbatim>\<open>CyU3PEventSet\<close> call returns a status other than success, the handler
  returns \<^verbatim>\<open>CyFalse\<close> and has printed a debug line whose argument is that status.
\<close>

theorem C3_event_set_failure_not_handled:
  assumes vendor: "ucast (bType_of c setupdat0) = CY_U3P_USB_VENDOR_RQT c"
    and distinct: "CY_U3P_USB_VENDOR_RQT c \<noteq> CY_U3P_USB_STANDARD_RQT c"
    and req: "vendor_request_of c (bRequest_of c setupdat0) = Some r"
    and fam: "r \<in> {ADI_STREAM_GENERIC_DATA, ADI_STREAM_BURST_DATA, ADI_STREAM_REALTIME,
                   ADI_TRANSFER_STREAM}"
    and sub: "wIndex_of c setupdat1 \<in>
                {ADI_STREAM_START_CMD, ADI_STREAM_DONE_CMD, ADI_STREAM_STOP_CMD}"
    and run: "AdiControlEndpointHandler c e setupdat0 setupdat1 w = (h, w')"
    and ev: "ev \<in> set (calls_made w w')" "ev_call ev = CyU3PEventSet g f"
    and fail: "ev_ret ev \<noteq> CY_U3P_SUCCESS c"
  shows "h = Some False
       \<and> (\<exists>msg. (msg, [ArgWord (ev_ret ev)]) \<in> set (lines_printed w w'))"
proof -
  let ?F = "vendor_frame c e setupdat0 setupdat1 w"
  from run have h: "h = (if halted ?F then None
      else Some (isHandled ?F \<and> status ?F = CY_U3P_SUCCESS c))"
    and w': "w' = wld ?F"
    by (simp_all add: AdiControlEndpointHandler_def handler_vendor [OF vendor distinct])
  note facts = stream_frame [OF req fam sub, where e = e and w = w]
  from facts have ne: "calls_made w w' \<noteq> []" unfolding w' by blast
  then have split: "calls_made w w' = butlast (calls_made w w') @ [last (calls_made w w')]"
    by simp
  from facts ev(2) have "ev \<notin> set (butlast (calls_made w w'))"
    unfolding w' by auto
  with ev(1) split have "ev = last (calls_made w w')"
    by (metis Un_iff empty_iff empty_set set_ConsD set_append)
  with facts have st: "status ?F = ev_ret ev"
    unfolding w' by simp
  with fail facts show ?thesis
    unfolding h w' by auto
qed

theorem C3_event_set_failure_witness:
  "(let r = AdiControlEndpointHandler fx3_build
              (env_failing {CyU3PEventSet EventHandler ADI_BURST_STREAM_STOP} 0x47)
              0xC140 2 world0
    in ucast (bType_of fx3_build 0xC140) = CY_U3P_USB_VENDOR_RQT fx3_build
       \<and> vendor_request_of fx3_build (bRequest_of fx3_build 0xC140) = Some ADI_STREAM_BURST_DATA
       \<and> wIndex_of fx3_build 2 = ADI_STREAM_STOP_CMD
       \<and> map ev_call (calls_made world0 (snd r)) = [CyU3PEventSet EventHandler ADI_BURST_STREAM_STOP]
       \<and> map ev_ret (calls_made world0 (snd r)) = [0x47]
       \<and> fst r = Some False
       \<and> (\<exists>msg. (msg, [ArgWord 0x47]) \<in> set (lines_printed world0 (snd r))))"
proof -
  let ?e = "env_failing {CyU3PEventSet EventHandler ADI_BURST_STREAM_STOP} 0x47"
  let ?r = "AdiControlEndpointHandler fx3_build ?e 0xC140 2 world0"
  have a: "ucast (bType_of fx3_build 0xC140) = CY_U3P_USB_VENDOR_RQT fx3_build"
    by (simp add: bType_of_def bReqType_of_def fx3_build_def)
  have b: "CY_U3P_USB_VENDOR_RQT fx3_build \<noteq> CY_U3P_USB_STANDARD_RQT fx3_build"
    by (simp add: fx3_build_def)
  have c: "vendor_request_of fx3_build (bRequest_of fx3_build 0xC140) = Some ADI_STREAM_BURST_DATA"
    by (simp add: bRequest_of_def fx3_build_def request_codes_def)
  have d: "wIndex_of fx3_build 2 = ADI_STREAM_STOP_CMD"
    by (simp add: wIndex_of_def fx3_build_def stream_cmd_defs)
  have F: "vendor_frame fx3_build ?e 0xC140 2 world0 =
      \<lparr>isHandled = False, status = 0x47,
       wld = world0
         \<lparr>trace := [\<lparr>ev_call = CyU3PEventSet EventHandler ADI_BURST_STREAM_STOP,
                     ev_globals = globals0, ev_ret = 0x47\<rparr>],
          debug_log := [(''Setting burst stream event failed, Error code = %x'',
                         [ArgWord 0x47])]\<rparr>,
       halted = False\<rparr>"
    using c d
    by (simp add: vendor_frame_def stmt_defs stream_cmd_defs ext_def Let_def env_failing_def
        world0_def fx3_build_def)
  have r: "?r = (Some False, wld (vendor_frame fx3_build ?e 0xC140 2 world0))"
    by (simp add: AdiControlEndpointHandler_def handler_vendor [OF a b] F)
  have cm: "calls_made world0 (snd ?r) =
      [\<lparr>ev_call = CyU3PEventSet EventHandler ADI_BURST_STREAM_STOP,
        ev_globals = globals0, ev_ret = 0x47\<rparr>]"
    unfolding r F by (simp add: calls_made_def world0_def)
  let ?ev = "\<lparr>ev_call = CyU3PEventSet EventHandler ADI_BURST_STREAM_STOP,
        ev_globals = globals0, ev_ret = 0x47\<rparr>"
  have fam: "ADI_STREAM_BURST_DATA \<in> {ADI_STREAM_GENERIC_DATA, ADI_STREAM_BURST_DATA,
      ADI_STREAM_REALTIME, ADI_TRANSFER_STREAM}"
    by simp
  have sub: "wIndex_of fx3_build 2 \<in>
      {ADI_STREAM_START_CMD, ADI_STREAM_DONE_CMD, ADI_STREAM_STOP_CMD}"
    unfolding d by simp
  have ev_in: "?ev \<in> set (calls_made world0 (snd ?r))"
    unfolding cm by simp
  have ev_call: "ev_call ?ev = CyU3PEventSet EventHandler ADI_BURST_STREAM_STOP"
    by simp
  have ev_ret: "ev_ret ?ev \<noteq> CY_U3P_SUCCESS fx3_build"
    by (simp add: fx3_build_def)
  from C3_event_set_failure_not_handled
         [OF a b c fam sub surjective_pairing ev_in ev_call ev_ret]
  have "fst ?r = Some False
      \<and> (\<exists>msg. (msg, [ArgWord 0x47]) \<in> set (lines_printed world0 (snd ?r)))"
    by simp
  with a c d cm show ?thesis
    by (simp add: Let_def)
qed

text \<open>
  C4. In each of the four stream families, a sub-operation selector other than Start,
  Done and Stop is printed to the debug log and nothing else happens: no call is made
  (so no event bit is raised), no global is written, and the handler returns \<^verbatim>\<open>CyTrue\<close>.
\<close>

theorem C4_unknown_stream_command_ignored:
  assumes vendor: "ucast (bType_of c setupdat0) = CY_U3P_USB_VENDOR_RQT c"
    and distinct: "CY_U3P_USB_VENDOR_RQT c \<noteq> CY_U3P_USB_STANDARD_RQT c"
    and req: "vendor_request_of c (bRequest_of c setupdat0) = Some r"
    and fam: "r \<in> {ADI_STREAM_GENERIC_DATA, ADI_STREAM_BURST_DATA, ADI_STREAM_REALTIME,
                   ADI_TRANSFER_STREAM}"
    and sub: "wIndex_of c setupdat1 \<notin>
                {ADI_STREAM_START_CMD, ADI_STREAM_DONE_CMD, ADI_STREAM_STOP_CMD}"
    and run: "AdiControlEndpointHandler c e setupdat0 setupdat1 w = (h, w')"
  shows "h = Some True \<and> globals w' = globals w \<and> calls_made w w' = []
       \<and> lines_printed w w' =
           (if VERBOSE_MODE c
            then [(''Vendor request = 0x%x'', [ArgWord (ucast (bRequest_of c setupdat0))])]
            else [])
           @ [(''ERROR: Unknown Stream Command: %d'',
               [ArgWord (ucast (wIndex_of c setupdat1))])]"
proof -
  let ?F = "vendor_frame c e setupdat0 setupdat1 w"
  from run have h: "h = (if halted ?F then None
      else Some (isHandled ?F \<and> status ?F = CY_U3P_SUCCESS c))"
    and w': "w' = wld ?F"
    by (simp_all add: AdiControlEndpointHandler_def handler_vendor [OF vendor distinct])
  from fam sub req show ?thesis
    unfolding h w'
    by (elim insertE emptyE)
       (simp_all add: vendor_frame_def stmt_defs Let_def calls_made_def lines_printed_def)
qed

theorem C4_unknown_stream_command_witness:
  "(let r = AdiControlEndpointHandler fx3_build env_ok 0xD040 7 world0
    in ucast (bType_of fx3_build 0xD040) = CY_U3P_USB_VENDOR_RQT fx3_build
       \<and> vendor_request_of fx3_build (bRequest_of fx3_build 0xD040) = Some ADI_STREAM_REALTIME
       \<and> wIndex_of fx3_build 7 = 7
       \<and> fst r = Some True \<and> globals (snd r) = globals world0
       \<and> calls_made world0 (snd r) = []
       \<and> lines_printed world0 (snd r) = [(''ERROR: Unknown Stream Command: %d'', [ArgWord 7])])"
proof -
  have a: "ucast (bType_of fx3_build 0xD040) = CY_U3P_USB_VENDOR_RQT fx3_build"
    by (simp add: bType_of_def bReqType_of_def fx3_build_def)
  have b: "CY_U3P_USB_VENDOR_RQT fx3_build \<noteq> CY_U3P_USB_STANDARD_RQT fx3_build"
    by (simp add: fx3_build_def)
  have c: "vendor_request_of fx3_build (bRequest_of fx3_build 0xD040) = Some ADI_STREAM_REALTIME"
    by (simp add: bRequest_of_def fx3_build_def request_codes_def)
  have d: "wIndex_of fx3_build 7 = 7"
    by (simp add: wIndex_of_def fx3_build_def)
  have fam: "ADI_STREAM_REALTIME \<in> {ADI_STREAM_GENERIC_DATA, ADI_STREAM_BURST_DATA,
      ADI_STREAM_REALTIME, ADI_TRANSFER_STREAM}"
    by simp
  have sub: "wIndex_of fx3_build 7 \<notin>
      {ADI_STREAM_START_CMD, ADI_STREAM_DONE_CMD, ADI_STREAM_STOP_CMD}"
    unfolding d by (simp add: stream_cmd_defs)
  have v: "\<not> VERBOSE_MODE fx3_build"
    by (simp add: fx3_build_def)
  from C4_unknown_stream_command_ignored [OF a b c fam sub surjective_pairing] a c d v
  show ?thesis
    by (simp add: Let_def)
qed

text \<open>
  C6. A transfer-bytes request with value field \<open>v\<close> and index field \<open>i\<close> makes one
  call, \<^verbatim>\<open>AdiTransferBytes\<close>, and its argument is the 32-bit word \<open>(i << 16) | v\<close>: the
  high 16 bits are \<open>i\<close>, the low 16 bits are \<open>v\<close>. (The C expression
  \<^verbatim>\<open>wIndex << 16 | wValue\<close> is evaluated at the 32 bits of \<^verbatim>\<open>int\<close> and passed as
  \<^verbatim>\<open>uint32_t\<close>.)
\<close>

theorem C6_transfer_bytes_word:
  assumes vendor: "ucast (bType_of c setupdat0) = CY_U3P_USB_VENDOR_RQT c"
    and distinct: "CY_U3P_USB_VENDOR_RQT c \<noteq> CY_U3P_USB_STANDARD_RQT c"
    and req: "vendor_request_of c (bRequest_of c setupdat0) = Some ADI_TRANSFER_BYTES"
    and run: "AdiControlEndpointHandler c e setupdat0 setupdat1 w = (h, w')"
    and v: "v = wValue_of c setupdat0" and i: "i = wIndex_of c setupdat1"
  shows "\<exists>x. map ev_call (calls_made w w') = [AdiTransferBytes x]
           \<and> x = push_bit 16 (ucast i) OR ucast v
           \<and> ucast (drop_bit 16 x) = i \<and> ucast x = v"
proof -
  let ?F = "vendor_frame c e setupdat0 setupdat1 w"
  from run have w': "w' = wld ?F"
    by (simp add: AdiControlEndpointHandler_def handler_vendor [OF vendor distinct])
  from req have cm: "map ev_call (calls_made w w') =
      [AdiTransferBytes (push_bit 16 (ucast i) OR ucast v)]"
    unfolding w' v i
    by (simp add: vendor_frame_def stmt_defs Let_def calls_made_def ext_trace)
  show ?thesis
    by (rule exI [where x = "push_bit 16 (ucast i) OR ucast v"])
       (intro conjI refl cm pack_hi pack_lo)
qed

theorem C6_transfer_bytes_witness:
  "(let r = AdiControlEndpointHandler fx3_build env_ok 0x1234CA40 0x0004ABCD world0
    in ucast (bType_of fx3_build 0x1234CA40) = CY_U3P_USB_VENDOR_RQT fx3_build
       \<and> vendor_request_of fx3_build (bRequest_of fx3_build 0x1234CA40) = Some ADI_TRANSFER_BYTES
       \<and> wValue_of fx3_build 0x1234CA40 = 0x1234
       \<and> wIndex_of fx3_build 0x0004ABCD = 0xABCD
       \<and> map ev_call (calls_made world0 (snd r)) = [AdiTransferBytes 0xABCD1234])"
proof -
  have a: "ucast (bType_of fx3_build 0x1234CA40) = CY_U3P_USB_VENDOR_RQT fx3_build"
    by (simp add: bType_of_def bReqType_of_def fx3_build_def)
  have b: "CY_U3P_USB_VENDOR_RQT fx3_build \<noteq> CY_U3P_USB_STANDARD_RQT fx3_build"
    by (simp add: fx3_build_def)
  have c: "vendor_request_of fx3_build (bRequest_of fx3_build 0x1234CA40) = Some ADI_TRANSFER_BYTES"
    by (simp add: bRequest_of_def fx3_build_def request_codes_def)
  have v: "0x1234 = wValue_of fx3_build 0x1234CA40"
    by (simp add: wValue_of_def fx3_build_def)
  have i: "0xABCD = wIndex_of fx3_build 0x0004ABCD"
    by (simp add: wIndex_of_def fx3_build_def)
  have "push_bit 16 (ucast (0xABCD :: u16)) OR ucast (0x1234 :: u16) = (0xABCD1234 :: u32)"
    by simp
  with C6_transfer_bytes_word [OF a b c surjective_pairing v i] a c v [symmetric] i [symmetric]
  show ?thesis
    by (auto simp add: Let_def)
qed

text \<open>
  C9. A request whose type is not vendor: the handler returns \<^verbatim>\<open>CyFalse\<close> and the world
  is untouched. The branch for standard requests stands inside the vendor branch: when
  the two request type codes differ, the result of the handler is the same whatever the
  body of that branch is, for every input.
\<close>

theorem C9_non_vendor_and_dead_branch:
  shows "(ucast (bType_of c setupdat0) \<noteq> CY_U3P_USB_VENDOR_RQT c \<longrightarrow>
            AdiControlEndpointHandler c e setupdat0 setupdat1 w = (Some False, w))
       \<and> (CY_U3P_USB_VENDOR_RQT c \<noteq> CY_U3P_USB_STANDARD_RQT c \<longrightarrow>
            (\<forall>std. handler_with std c e setupdat0 setupdat1 w
                     = AdiControlEndpointHandler c e setupdat0 setupdat1 w))"
proof (intro conjI impI allI)
  assume "ucast (bType_of c setupdat0) \<noteq> CY_U3P_USB_VENDOR_RQT c"
  then show "AdiControlEndpointHandler c e setupdat0 setupdat1 w = (Some False, w)"
    by (simp add: handler_defs if_stmt_def)
next
  fix std
  assume distinct: "CY_U3P_USB_VENDOR_RQT c \<noteq> CY_U3P_USB_STANDARD_RQT c"
  show "handler_with std c e setupdat0 setupdat1 w
          = AdiControlEndpointHandler c e setupdat0 setupdat1 w"
  proof (cases "ucast (bType_of c setupdat0) = CY_U3P_USB_VENDOR_RQT c")
    case True
    then show ?thesis
      by (simp add: AdiControlEndpointHandler_def handler_vendor [OF True distinct])
  next
    case False
    then show ?thesis
      by (simp add: handler_defs if_stmt_def)
  qed
qed

theorem C9_non_vendor_witness:
  "ucast (bType_of fx3_build 0x0301) \<noteq> CY_U3P_USB_VENDOR_RQT fx3_build
   \<and> AdiControlEndpointHandler fx3_build env_ok 0x0301 0 world0 = (Some False, world0)
   \<and> CY_U3P_USB_VENDOR_RQT fx3_build \<noteq> CY_U3P_USB_STANDARD_RQT fx3_build
   \<and> (\<forall>std. handler_with std fx3_build env_ok 0x0301 0 world0
              = AdiControlEndpointHandler fx3_build env_ok 0x0301 0 world0)"
proof -
  have a: "ucast (bType_of fx3_build 0x0301) \<noteq> CY_U3P_USB_VENDOR_RQT fx3_build"
    by (simp add: bType_of_def bReqType_of_def fx3_build_def)
  have b: "CY_U3P_USB_VENDOR_RQT fx3_build \<noteq> CY_U3P_USB_STANDARD_RQT fx3_build"
    by (simp add: fx3_build_def)
  from C9_non_vendor_and_dead_branch [of fx3_build "0x0301" env_ok 0 world0] a b
  show ?thesis
    by blast
qed

text \<open>
  C10. A get-status request: \<^verbatim>\<open>status\<close> still holds its initial value
  \<^verbatim>\<open>CY_U3P_SUCCESS\<close> when the case reads it, so the four status bytes in \<^verbatim>\<open>USBBuffer\<close>
  at the one call made, \<^verbatim>\<open>CyU3PUsbSendEP0Data\<close>, are the bytes of \<^verbatim>\<open>CY_U3P_SUCCESS\<close>:
  all zero, as \<^verbatim>\<open>CY_U3P_SUCCESS\<close> is 0. No environment can make the command report
  another status.
\<close>

theorem C10_get_status_reports_success:
  assumes vendor: "ucast (bType_of c setupdat0) = CY_U3P_USB_VENDOR_RQT c"
    and distinct: "CY_U3P_USB_VENDOR_RQT c \<noteq> CY_U3P_USB_STANDARD_RQT c"
    and req: "vendor_request_of c (bRequest_of c setupdat0) = Some ADI_GET_STATUS"
    and run: "AdiControlEndpointHandler c e setupdat0 setupdat1 w = (h, w')"
  shows "\<exists>ev. calls_made w w' = [ev]
           \<and> ev_call ev = CyU3PUsbSendEP0Data (wLength_of c setupdat1) USBBuffer_ref
           \<and> status_payload (ev_globals ev) = le_bytes (CY_U3P_SUCCESS c)
           \<and> (CY_U3P_SUCCESS c = 0 \<longrightarrow> status_payload (ev_globals ev) = [0, 0, 0, 0])"
proof -
  let ?F = "vendor_frame c e setupdat0 setupdat1 w"
  from run have w': "w' = wld ?F"
    by (simp add: AdiControlEndpointHandler_def handler_vendor [OF vendor distinct])
  from req show ?thesis
    unfolding w'
    by (simp add: vendor_frame_def stmt_defs Let_def calls_made_def ext_trace
        status_payload_def le_bytes_def byte0 byte1 byte2 byte3)
qed

theorem C10_get_status_witness:
  "(let r = AdiControlEndpointHandler fx3_build (env_failing UNIV 0x40) 0xB4C0 0x00050000 world0
    in ucast (bType_of fx3_build 0xB4C0) = CY_U3P_USB_VENDOR_RQT fx3_build
       \<and> vendor_request_of fx3_build (bRequest_of fx3_build 0xB4C0) = Some ADI_GET_STATUS
       \<and> CY_U3P_SUCCESS fx3_build = 0
       \<and> (\<exists>ev. calls_made world0 (snd r) = [ev]
           \<and> ev_call ev = CyU3PUsbSendEP0Data 5 USBBuffer_ref
           \<and> status_payload (ev_globals ev) = [0, 0, 0, 0]))"
proof -
  have a: "ucast (bType_of fx3_build 0xB4C0) = CY_U3P_USB_VENDOR_RQT fx3_build"
    by (simp add: bType_of_def bReqType_of_def fx3_build_def)
  have b: "CY_U3P_USB_VENDOR_RQT fx3_build \<noteq> CY_U3P_USB_STANDARD_RQT fx3_build"
    by (simp add: fx3_build_def)
  have c: "vendor_request_of fx3_build (bRequest_of fx3_build 0xB4C0) = Some ADI_GET_STATUS"
    by (simp add: bRequest_of_def fx3_build_def request_codes_def)
  have d: "wLength_of fx3_build 0x00050000 = 5"
    by (simp add: wLength_of_def fx3_build_def)
  have s: "CY_U3P_SUCCESS fx3_build = 0"
    by (simp add: fx3_build_def)
  let ?r = "AdiControlEndpointHandler fx3_build (env_failing UNIV 0x40) 0xB4C0 0x00050000 world0"
  from C10_get_status_reports_success [OF a b c surjective_pairing,
      where e = "env_failing UNIV 0x40" and ?setupdat1.0 = "0x00050000" and w = world0]
  obtain ev where "calls_made world0 (snd ?r) = [ev]"
    and "ev_call ev = CyU3PUsbSendEP0Data (wLength_of fx3_build 0x00050000) USBBuffer_ref"
    and "CY_U3P_SUCCESS fx3_build = 0 \<longrightarrow> status_payload (ev_globals ev) = [0, 0, 0, 0]"
    by blast
  with a c s show ?thesis
    unfolding d Let_def by blast
qed

section \<open>Runs in the concrete build\<close>

lemma ext_env_ok:
  "ext env_ok cl w =
     (0, w\<lparr>trace := trace w @ [\<lparr>ev_call = cl, ev_globals = globals w, ev_ret = 0\<rparr>]\<rparr>)"
  by (simp add: ext_def env_ok_def)

lemma ext_env_failing:
  "ext (env_failing bad st) cl w =
     (if cl \<in> bad then st else 0,
      w\<lparr>trace := trace w @
         [\<lparr>ev_call = cl, ev_globals = globals w, ev_ret = (if cl \<in> bad then st else 0)\<rparr>]\<rparr>)"
  by (simp add: ext_def env_failing_def)

text \<open>
  The Start paths of the burst and the real-time family, for every build, environment
  and world: one call, \<^verbatim>\<open>CyU3PEventSet\<close>, made when the parameter is already written.
\<close>

lemma burst_and_realtime_start_write_before_raise:
  assumes vendor: "ucast (bType_of c setupdat0) = CY_U3P_USB_VENDOR_RQT c"
    and distinct: "CY_U3P_USB_VENDOR_RQT c \<noteq> CY_U3P_USB_STANDARD_RQT c"
    and sub: "wIndex_of c setupdat1 = ADI_STREAM_START_CMD"
    and run: "AdiControlEndpointHandler c e setupdat0 setupdat1 w = (h, w')"
  shows "vendor_request_of c (bRequest_of c setupdat0) = Some ADI_STREAM_BURST_DATA \<Longrightarrow>
           \<exists>ev. calls_made w w' = [ev]
             \<and> ev_call ev = CyU3PEventSet EventHandler ADI_BURST_STREAM_START
             \<and> TransferWordLength (StreamThreadState (ev_globals ev)) = wLength_of c setupdat1"
    and "vendor_request_of c (bRequest_of c setupdat0) = Some ADI_STREAM_REALTIME \<Longrightarrow>
           \<exists>ev. calls_made w w' = [ev]
             \<and> ev_call ev = CyU3PEventSet EventHandler ADI_RT_STREAM_START
             \<and> PinExitEnable (StreamThreadState (ev_globals ev)) = (wValue_of c setupdat0 \<noteq> 0)"
proof -
  let ?F = "vendor_frame c e setupdat0 setupdat1 w"
  from run have w': "w' = wld ?F"
    by (simp add: AdiControlEndpointHandler_def handler_vendor [OF vendor distinct])
  show "vendor_request_of c (bRequest_of c setupdat0) = Some ADI_STREAM_BURST_DATA \<Longrightarrow>
           \<exists>ev. calls_made w w' = [ev]
             \<and> ev_call ev = CyU3PEventSet EventHandler ADI_BURST_STREAM_START
             \<and> TransferWordLength (StreamThreadState (ev_globals ev)) = wLength_of c setupdat1"
    unfolding w' using sub
    by (simp add: vendor_frame_def stmt_defs Let_def calls_made_def ext_trace)
  show "vendor_request_of c (bRequest_of c setupdat0) = Some ADI_STREAM_REALTIME \<Longrightarrow>
           \<exists>ev. calls_made w w' = [ev]
             \<and> ev_call ev = CyU3PEventSet EventHandler ADI_RT_STREAM_START
             \<and> PinExitEnable (StreamThreadState (ev_globals ev)) = (wValue_of c setupdat0 \<noteq> 0)"
    unfolding w' using sub
    by (simp add: vendor_frame_def stmt_defs Let_def calls_made_def ext_trace)
qed

text \<open>
  The Start path of the transfer family, for every build, environment and world: the
  one call, \<^verbatim>\<open>CyU3PEventSet\<close>, is made on the globals as the handler found them, and
  \<^verbatim>\<open>TransferByteLength\<close> is written after it.
\<close>

lemma transfer_start_raise_before_write:
  assumes vendor: "ucast (bType_of c setupdat0) = CY_U3P_USB_VENDOR_RQT c"
    and distinct: "CY_U3P_USB_VENDOR_RQT c \<noteq> CY_U3P_USB_STANDARD_RQT c"
    and req: "vendor_request_of c (bRequest_of c setupdat0) = Some ADI_TRANSFER_STREAM"
    and sub: "wIndex_of c setupdat1 = ADI_STREAM_START_CMD"
    and run: "AdiControlEndpointHandler c e setupdat0 setupdat1 w = (h, w')"
  shows "\<exists>ev. calls_made w w' = [ev]
           \<and> ev_call ev = CyU3PEventSet EventHandler ADI_TRANSFER_STREAM_START
           \<and> ev_globals ev = globals w"
proof -
  let ?F = "vendor_frame c e setupdat0 setupdat1 w"
  from run have w': "w' = wld ?F"
    by (simp add: AdiControlEndpointHandler_def handler_vendor [OF vendor distinct])
  show ?thesis
    unfolding w' using sub req
    by (simp add: vendor_frame_def stmt_defs Let_def calls_made_def ext_trace)
qed

text \<open>
  C2. The Start paths of the burst and the real-time family write their parameter and
  then call \<^verbatim>\<open>CyU3PEventSet\<close>. The Start paths of the generic and the transfer family
  call \<^verbatim>\<open>CyU3PEventSet\<close> first and write \<^verbatim>\<open>TransferByteLength\<close> afterwards: in the
  run below (Start with \<^verbatim>\<open>wLength\<close> = 100, from a state where the length is 0) the
  globals at the moment of the \<^verbatim>\<open>CyU3PEventSet\<close> call still hold length 0, and hold 100
  only when the handler returns.
\<close>

theorem C2_generic_and_transfer_start_raise_before_write:
  "(let w' = snd (AdiControlEndpointHandler fx3_build env_ok 0xC040 0x00640000 world0);
        ev = last (calls_made world0 w')
    in vendor_request_of fx3_build (bRequest_of fx3_build 0xC040) = Some ADI_STREAM_GENERIC_DATA
       \<and> wIndex_of fx3_build 0x00640000 = ADI_STREAM_START_CMD
       \<and> wLength_of fx3_build 0x00640000 = 100
       \<and> ev_call ev = CyU3PEventSet EventHandler ADI_GENERIC_STREAM_START
       \<and> TransferByteLength (StreamThreadState (ev_globals ev)) = 0
       \<and> TransferByteLength (StreamThreadState (globals w')) = 100)
   \<and> (let w' = snd (AdiControlEndpointHandler fx3_build env_ok 0xCC40 0x00640000 world0);
        ev = last (calls_made world0 w')
    in vendor_request_of fx3_build (bRequest_of fx3_build 0xCC40) = Some ADI_TRANSFER_STREAM
       \<and> ev_call ev = CyU3PEventSet EventHandler ADI_TRANSFER_STREAM_START
       \<and> TransferByteLength (StreamThreadState (ev_globals ev)) = 0
       \<and> TransferByteLength (StreamThreadState (globals w')) = 100)"
proof -
  have b: "CY_U3P_USB_VENDOR_RQT fx3_build \<noteq> CY_U3P_USB_STANDARD_RQT fx3_build"
    by (simp add: fx3_build_def)
  have i: "wIndex_of fx3_build 0x00640000 = ADI_STREAM_START_CMD"
    by (simp add: wIndex_of_def fx3_build_def stream_cmd_defs)
  have l: "wLength_of fx3_build 0x00640000 = 100"
    by (simp add: wLength_of_def fx3_build_def)
  have v: "\<not> VERBOSE_MODE fx3_build"
    by (simp add: fx3_build_def)
  have ag: "ucast (bType_of fx3_build 0xC040) = CY_U3P_USB_VENDOR_RQT fx3_build"
    by (simp add: bType_of_def bReqType_of_def fx3_build_def)
  have cg: "vendor_request_of fx3_build (bRequest_of fx3_build 0xC040) = Some ADI_STREAM_GENERIC_DATA"
    by (simp add: bRequest_of_def fx3_build_def request_codes_def)
  have at: "ucast (bType_of fx3_build 0xCC40) = CY_U3P_USB_VENDOR_RQT fx3_build"
    by (simp add: bType_of_def bReqType_of_def fx3_build_def)
  have ct: "vendor_request_of fx3_build (bRequest_of fx3_build 0xCC40) = Some ADI_TRANSFER_STREAM"
    by (simp add: bRequest_of_def fx3_build_def request_codes_def)
  have g: "wld (vendor_frame fx3_build env_ok 0xC040 0x00640000 world0) =
      world0
        \<lparr>globals := globals0\<lparr>StreamThreadState :=
            (StreamThreadState globals0)\<lparr>TransferByteLength := 100\<rparr>\<rparr>,
         trace := [\<lparr>ev_call = CyU3PUsbGetEP0Data 100 USBBuffer_ref, ev_globals = globals0,
                     ev_ret = 0\<rparr>,
                   \<lparr>ev_call = CyU3PEventSet EventHandler ADI_GENERIC_STREAM_START,
                     ev_globals = globals0, ev_ret = 0\<rparr>]\<rparr>"
    unfolding vendor_frame_def cg i l
    by (simp add: v stmt_defs ext_env_ok world0_def fx3_build_def)
  have t: "wld (vendor_frame fx3_build env_ok 0xCC40 0x00640000 world0) =
      world0
        \<lparr>globals := globals0\<lparr>StreamThreadState :=
            (StreamThreadState globals0)\<lparr>TransferByteLength := 100\<rparr>\<rparr>,
         trace := [\<lparr>ev_call = CyU3PEventSet EventHandler ADI_TRANSFER_STREAM_START,
                     ev_globals = globals0, ev_ret = 0\<rparr>]\<rparr>"
    unfolding vendor_frame_def ct i l
    by (simp add: v stmt_defs ext_env_ok world0_def fx3_build_def)
  have z: "TransferByteLength (StreamThreadState globals0) = 0"
    by (simp add: globals0_def)
  show ?thesis
    unfolding AdiControlEndpointHandler_def handler_vendor [OF ag b] handler_vendor [OF at b]
      Let_def snd_conv g t
    using cg ct i l z
    by (simp add: calls_made_def world0_def)
qed


section \<open>Failing calls and the fatal error handler\<close>

lemma countdown_5:
  "reboot_countdown e 5 w =
    snd (ext e (CyU3PThreadSleep 1000)
      (CyU3PDebugPrint ''Rebooting in %d seconds...'' [ArgWord 1]
    (snd (ext e (CyU3PThreadSleep 1000)
      (CyU3PDebugPrint ''Rebooting in %d seconds...'' [ArgWord 2]
    (snd (ext e (CyU3PThreadSleep 1000)
      (CyU3PDebugPrint ''Rebooting in %d seconds...'' [ArgWord 3]
    (snd (ext e (CyU3PThreadSleep 1000)
      (CyU3PDebugPrint ''Rebooting in %d seconds...'' [ArgWord 4]
    (snd (ext e (CyU3PThreadSleep 1000)
      (CyU3PDebugPrint ''Rebooting in %d seconds...'' [ArgWord 5] w))))))))))))))"
  by (simp add: eval_nat_numeral)

text \<open>
  C5, as stated, fails. A cold reset request in an environment where
  \<^verbatim>\<open>CyU3PSetEpConfig\<close> fails for the streaming endpoint with status 0x40: \<^verbatim>\<open>AdiAppStop\<close>,
  called by the handler, passes the status to \<^verbatim>\<open>AdiAppErrorHandler\<close>, which prints the
  fatal error line, counts down and calls \<^verbatim>\<open>CyU3PDeviceReset\<close>; the handler does not
  return.
\<close>

theorem C5_reset_runs_fatal_handler_counterexample:
  "(let e = env_failing {CyU3PSetEpConfig ADI_STREAMING_ENDPOINT False} 0x40;
        r = AdiControlEndpointHandler fx3_build e 0xB140 0 world0
    in ucast (bType_of fx3_build 0xB140) = CY_U3P_USB_VENDOR_RQT fx3_build
       \<and> vendor_request_of fx3_build (bRequest_of fx3_build 0xB140) = Some ADI_HARD_RESET
       \<and> fst r = None
       \<and> fatal_handler_ran world0 (snd r)
       \<and> take 3 (lines_printed world0 (snd r)) =
           [(''Application stopping!'', []),
            (''Application failed with fatal error. Error code: 0x%x'', [ArgWord 0x40]),
            (''Rebooting in %d seconds...'', [ArgWord 5])]
       \<and> take 21 (map ev_call (calls_made world0 (snd r))) =
           [CyU3PUsbAckSetup, CyU3PUsbGetEP0Data 0 USBBuffer_ref, CyU3PThreadSleep 500,
            CyU3PConnectState False True, CyU3PUartDeInit, CyU3PGpioDeInit, CyU3PSpiDeInit,
            CyU3PEventDestroy EventHandler, CyU3PEventDestroy GpioHandler,
            CyU3PUsbFlushEp ADI_STREAMING_ENDPOINT, CyU3PUsbFlushEp ADI_FROM_PC_ENDPOINT,
            CyU3PUsbFlushEp ADI_TO_PC_ENDPOINT, CyU3PDmaChannelDestroy ChannelFromPC,
            CyU3PDmaChannelDestroy ChannelToPC, CyU3PSetEpConfig ADI_STREAMING_ENDPOINT False,
            CyU3PThreadSleep 1000, CyU3PThreadSleep 1000, CyU3PThreadSleep 1000,
            CyU3PThreadSleep 1000, CyU3PThreadSleep 1000, CyU3PDeviceReset False])"
proof -
  have a: "ucast (bType_of fx3_build 0xB140) = CY_U3P_USB_VENDOR_RQT fx3_build"
    by (simp add: bType_of_def bReqType_of_def fx3_build_def)
  have b: "CY_U3P_USB_VENDOR_RQT fx3_build \<noteq> CY_U3P_USB_STANDARD_RQT fx3_build"
    by (simp add: fx3_build_def)
  have c: "vendor_request_of fx3_build (bRequest_of fx3_build 0xB140) = Some ADI_HARD_RESET"
    by (simp add: bRequest_of_def fx3_build_def request_codes_def)
  have l: "wLength_of fx3_build 0 = 0"
    by (simp add: wLength_of_def fx3_build_def)
  have v: "\<not> VERBOSE_MODE fx3_build" and s: "CY_U3P_SUCCESS fx3_build = 0"
    by (simp_all add: fx3_build_def)
  show ?thesis
    unfolding AdiControlEndpointHandler_def handler_vendor [OF a b] Let_def snd_conv
      vendor_frame_def c l
    using a c
    by (simp add: v s stmt_defs ext_env_failing AdiAppStop_def disable_endpoint_def
        AdiAppStop_call_def device_reset_def and_then_def
        AdiAppErrorHandler_def countdown_5 Let_def world0_def calls_made_def
        lines_printed_def fatal_handler_ran_def)
qed

text \<open>
  Outside the two reset commands the handler never reaches \<^verbatim>\<open>AdiAppErrorHandler\<close> and
  never calls \<^verbatim>\<open>CyU3PDeviceReset\<close>, whatever the calls return.
\<close>

lemma no_fatal_outside_reset:
  assumes req: "vendor_request_of c (bRequest_of c setupdat0) = r"
    and nr: "r \<noteq> Some ADI_HARD_RESET" "r \<noteq> Some ADI_WARM_RESET"
  shows "\<not> halted (vendor_frame c e setupdat0 setupdat1 w)
       \<and> \<not> fatal_handler_ran w (wld (vendor_frame c e setupdat0 setupdat1 w))
       \<and> (\<forall>ev \<in> set (calls_made w (wld (vendor_frame c e setupdat0 setupdat1 w))).
             \<forall>b. ev_call ev \<noteq> CyU3PDeviceReset b)"
proof (cases r)
  case None
  with req show ?thesis
    by (simp add: vendor_frame_def stmt_defs calls_made_def lines_printed_def
        fatal_handler_ran_def)
next
  case (Some q)
  with req nr show ?thesis
    by (cases q)
       (simp_all add: vendor_frame_def stmt_defs Let_def calls_made_def lines_printed_def
          fatal_handler_ran_def ext_trace ext_debug_log)
qed

text \<open>
  The commands that answer with a status: \<^verbatim>\<open>USBBuffer[0..3]\<close> holds the status of the
  command's call, byte 0 = LSB, when the reply call is made.
\<close>

lemma status_echo_ep0:
  assumes req: "vendor_request_of c (bRequest_of c setupdat0) = Some r"
    and r: "r \<in> {ADI_SET_PIN, ADI_SET_DUT_SUPPLY, ADI_RESET_SPI, ADI_SET_PIN_RESISTOR}"
  shows "\<exists>ev1 ev2 rest.
           calls_made w (wld (vendor_frame c e setupdat0 setupdat1 w)) = ev1 # ev2 # rest
           \<and> ev_call ev2 = CyU3PUsbSendEP0Data (wLength_of c setupdat1) USBBuffer_ref
           \<and> status_payload (ev_globals ev2) = le_bytes (ev_ret ev1)
           \<and> status (vendor_frame c e setupdat0 setupdat1 w) = ev_ret ev1
           \<and> \<not> halted (vendor_frame c e setupdat0 setupdat1 w)"
  using r req
  apply (elim insertE emptyE)
     apply (simp_all add: vendor_frame_def stmt_defs Let_def calls_made_def ext_trace
      ext_fst ext_globals status_payload_def le_bytes_def byte0 byte1 byte2 byte3)
  done

lemma status_echo_bulk:
  assumes req: "vendor_request_of c (bRequest_of c setupdat0) = Some ADI_PULSE_DRIVE"
  shows "\<exists>ev0 ev1 ev2.
           calls_made w (wld (vendor_frame c e setupdat0 setupdat1 w)) = [ev0, ev1, ev2]
           \<and> ev_call ev1 = AdiPulseDrive
           \<and> ev_call ev2 = CyU3PDmaChannelSetupSendBuffer ChannelToPC
           \<and> ManualDMABuffer (ev_globals ev2)
               = \<lparr>dma_buffer = Some USBBuffer_ref, dma_size = 4096, dma_count = 4\<rparr>
           \<and> status_payload (ev_globals ev2) = le_bytes (ev_ret ev1)
           \<and> status (vendor_frame c e setupdat0 setupdat1 w) = ev_ret ev1
           \<and> \<not> halted (vendor_frame c e setupdat0 setupdat1 w)"
  using req
  apply (simp add: vendor_frame_def stmt_defs Let_def calls_made_def ext_trace
      ext_fst ext_globals status_payload_def le_bytes_def byte0 byte1 byte2 byte3)
  done

text \<open>
  C5, amended. For every vendor command other than the cold and the warm reset,
  whatever the calls return, the code of main.c does not run \<^verbatim>\<open>AdiAppErrorHandler\<close>
  and does not call \<^verbatim>\<open>CyU3PDeviceReset\<close>. For the commands that answer with a status
  (\<^verbatim>\<open>ADI_SET_PIN\<close>, \<^verbatim>\<open>ADI_SET_DUT_SUPPLY\<close>, \<^verbatim>\<open>ADI_RESET_SPI\<close>, \<^verbatim>\<open>ADI_SET_PIN_RESISTOR\<close>
  over the control endpoint, \<^verbatim>\<open>ADI_PULSE_DRIVE\<close> over the bulk endpoint) the status the
  command's call returned is in \<^verbatim>\<open>USBBuffer[0..3]\<close>, byte 0 = LSB, when the reply call is
  made, and a status other than success makes the handler return \<^verbatim>\<open>CyFalse\<close>. Outside
  the two reset commands the handler always returns.
\<close>

theorem C5_failure_echoed_not_fatal_outside_reset:
  assumes vendor: "ucast (bType_of c setupdat0) = CY_U3P_USB_VENDOR_RQT c"
    and distinct: "CY_U3P_USB_VENDOR_RQT c \<noteq> CY_U3P_USB_STANDARD_RQT c"
    and req: "vendor_request_of c (bRequest_of c setupdat0) = r"
    and run: "AdiControlEndpointHandler c e setupdat0 setupdat1 w = (h, w')"
  shows "(r \<noteq> Some ADI_HARD_RESET \<and> r \<noteq> Some ADI_WARM_RESET \<longrightarrow>
            h \<noteq> None \<and> \<not> fatal_handler_ran w w'
            \<and> (\<forall>ev \<in> set (calls_made w w'). \<forall>b. ev_call ev \<noteq> CyU3PDeviceReset b))
       \<and> (r \<in> {Some ADI_SET_PIN, Some ADI_SET_DUT_SUPPLY, Some ADI_RESET_SPI,
                 Some ADI_SET_PIN_RESISTOR} \<longrightarrow>
            (\<exists>ev1 ev2 rest.
               calls_made w w' = ev1 # ev2 # rest
               \<and> ev_call ev2 = CyU3PUsbSendEP0Data (wLength_of c setupdat1) USBBuffer_ref
               \<and> status_payload (ev_globals ev2) = le_bytes (ev_ret ev1)
               \<and> (ev_ret ev1 \<noteq> CY_U3P_SUCCESS c \<longrightarrow> h = Some False)))
       \<and> (r = Some ADI_PULSE_DRIVE \<longrightarrow>
            (\<exists>ev0 ev1 ev2.
               calls_made w w' = [ev0, ev1, ev2]
               \<and> ev_call ev1 = AdiPulseDrive
               \<and> ev_call ev2 = CyU3PDmaChannelSetupSendBuffer ChannelToPC
               \<and> ManualDMABuffer (ev_globals ev2)
                   = \<lparr>dma_buffer = Some USBBuffer_ref, dma_size = 4096, dma_count = 4\<rparr>
               \<and> status_payload (ev_globals ev2) = le_bytes (ev_ret ev1)
               \<and> (ev_ret ev1 \<noteq> CY_U3P_SUCCESS c \<longrightarrow> h = Some False)))"
proof -
  let ?F = "vendor_frame c e setupdat0 setupdat1 w"
  from run have h: "h = (if halted ?F then None
      else Some (isHandled ?F \<and> status ?F = CY_U3P_SUCCESS c))"
    and w': "w' = wld ?F"
    by (simp_all add: AdiControlEndpointHandler_def handler_vendor [OF vendor distinct])
  have 1: "r \<noteq> Some ADI_HARD_RESET \<and> r \<noteq> Some ADI_WARM_RESET \<longrightarrow>
            h \<noteq> None \<and> \<not> fatal_handler_ran w w'
            \<and> (\<forall>ev \<in> set (calls_made w w'). \<forall>b. ev_call ev \<noteq> CyU3PDeviceReset b)"
    unfolding h w' using no_fatal_outside_reset [OF req, where e = e and w = w
        and ?setupdat1.0 = setupdat1]
    by simp
  have 2: "r \<in> {Some ADI_SET_PIN, Some ADI_SET_DUT_SUPPLY, Some ADI_RESET_SPI,
                 Some ADI_SET_PIN_RESISTOR} \<longrightarrow>
            (\<exists>ev1 ev2 rest.
               calls_made w w' = ev1 # ev2 # rest
               \<and> ev_call ev2 = CyU3PUsbSendEP0Data (wLength_of c setupdat1) USBBuffer_ref
               \<and> status_payload (ev_globals ev2) = le_bytes (ev_ret ev1)
               \<and> (ev_ret ev1 \<noteq> CY_U3P_SUCCESS c \<longrightarrow> h = Some False))"
  proof
    assume "r \<in> {Some ADI_SET_PIN, Some ADI_SET_DUT_SUPPLY, Some ADI_RESET_SPI,
                 Some ADI_SET_PIN_RESISTOR}"
    then obtain q where q: "r = Some q"
      "q \<in> {ADI_SET_PIN, ADI_SET_DUT_SUPPLY, ADI_RESET_SPI, ADI_SET_PIN_RESISTOR}"
      by auto
    from status_echo_ep0 [OF req [unfolded q(1)] q(2), where e = e and w = w
        and ?setupdat1.0 = setupdat1]
    obtain ev1 ev2 rest where ev: "calls_made w (wld ?F) = ev1 # ev2 # rest"
      "ev_call ev2 = CyU3PUsbSendEP0Data (wLength_of c setupdat1) USBBuffer_ref"
      "status_payload (ev_globals ev2) = le_bytes (ev_ret ev1)"
      "status ?F = ev_ret ev1" "\<not> halted ?F"
      by blast
    show "\<exists>ev1 ev2 rest.
               calls_made w w' = ev1 # ev2 # rest
               \<and> ev_call ev2 = CyU3PUsbSendEP0Data (wLength_of c setupdat1) USBBuffer_ref
               \<and> status_payload (ev_globals ev2) = le_bytes (ev_ret ev1)
               \<and> (ev_ret ev1 \<noteq> CY_U3P_SUCCESS c \<longrightarrow> h = Some False)"
      by (rule exI [where x = ev1], rule exI [where x = ev2], rule exI [where x = rest])
         (simp add: h w' ev)
  qed
  have 3: "r = Some ADI_PULSE_DRIVE \<longrightarrow>
            (\<exists>ev0 ev1 ev2.
               calls_made w w' = [ev0, ev1, ev2]
               \<and> ev_call ev1 = AdiPulseDrive
               \<and> ev_call ev2 = CyU3PDmaChannelSetupSendBuffer ChannelToPC
               \<and> ManualDMABuffer (ev_globals ev2)
                   = \<lparr>dma_buffer = Some USBBuffer_ref, dma_size = 4096, dma_count = 4\<rparr>
               \<and> status_payload (ev_globals ev2) = le_bytes (ev_ret ev1)
               \<and> (ev_ret ev1 \<noteq> CY_U3P_SUCCESS c \<longrightarrow> h = Some False))"
  proof
    assume q: "r = Some ADI_PULSE_DRIVE"
    from status_echo_bulk [OF req [unfolded q], where e = e and w = w
        and ?setupdat1.0 = setupdat1]
    obtain ev0 ev1 ev2 where ev: "calls_made w (wld ?F) = [ev0, ev1, ev2]"
      "ev_call ev1 = AdiPulseDrive"
      "ev_call ev2 = CyU3PDmaChannelSetupSendBuffer ChannelToPC"
      "ManualDMABuffer (ev_globals ev2)
         = \<lparr>dma_buffer = Some USBBuffer_ref, dma_size = 4096, dma_count = 4\<rparr>"
      "status_payload (ev_globals ev2) = le_bytes (ev_ret ev1)"
      "status ?F = ev_ret ev1" "\<not> halted ?F"
      by blast
    show "\<exists>ev0 ev1 ev2.
               calls_made w w' = [ev0, ev1, ev2]
               \<and> ev_call ev1 = AdiPulseDrive
               \<and> ev_call ev2 = CyU3PDmaChannelSetupSendBuffer ChannelToPC
               \<and> ManualDMABuffer (ev_globals ev2)
                   = \<lparr>dma_buffer = Some USBBuffer_ref, dma_size = 4096, dma_count = 4\<rparr>
               \<and> status_payload (ev_globals ev2) = le_bytes (ev_ret ev1)
               \<and> (ev_ret ev1 \<noteq> CY_U3P_SUCCESS c \<longrightarrow> h = Some False)"
      by (rule exI [where x = ev0], rule exI [where x = ev1], rule exI [where x = ev2])
         (simp add: h w' ev)
  qed
  from 1 2 3 show ?thesis by blast
qed

theorem C5_failure_echoed_witness:
  "(let e = env_failing {AdiSetPin 5 True} 0x40;
        r = AdiControlEndpointHandler fx3_build e 0x0001C740 0x00040005 world0
    in ucast (bType_of fx3_build 0x0001C740) = CY_U3P_USB_VENDOR_RQT fx3_build
       \<and> vendor_request_of fx3_build (bRequest_of fx3_build 0x0001C740) = Some ADI_SET_PIN
       \<and> \<not> fatal_handler_ran world0 (snd r)
       \<and> map ev_call (calls_made world0 (snd r))
            = [AdiSetPin 5 True, CyU3PUsbSendEP0Data 4 USBBuffer_ref]
       \<and> map ev_ret (calls_made world0 (snd r)) = [0x40, 0]
       \<and> status_payload (ev_globals (last (calls_made world0 (snd r)))) = [0x40, 0, 0, 0]
       \<and> fst r = Some False)"
proof -
  let ?e = "env_failing {AdiSetPin 5 True} 0x40"
  let ?r = "AdiControlEndpointHandler fx3_build ?e 0x0001C740 0x00040005 world0"
  have a: "ucast (bType_of fx3_build 0x0001C740) = CY_U3P_USB_VENDOR_RQT fx3_build"
    by (simp add: bType_of_def bReqType_of_def fx3_build_def)
  have b: "CY_U3P_USB_VENDOR_RQT fx3_build \<noteq> CY_U3P_USB_STANDARD_RQT fx3_build"
    by (simp add: fx3_build_def)
  have c: "vendor_request_of fx3_build (bRequest_of fx3_build 0x0001C740) = Some ADI_SET_PIN"
    by (simp add: bRequest_of_def fx3_build_def request_codes_def)
  have d: "wValue_of fx3_build 0x0001C740 = 1" "wIndex_of fx3_build 0x00040005 = 5"
    "wLength_of fx3_build 0x00040005 = 4"
    by (simp_all add: wValue_of_def wIndex_of_def wLength_of_def fx3_build_def)
  have v: "\<not> VERBOSE_MODE fx3_build" and s: "CY_U3P_SUCCESS fx3_build = 0"
    by (simp_all add: fx3_build_def)
  have w: "snd ?r = wld (vendor_frame fx3_build ?e 0x0001C740 0x00040005 world0)"
    by (simp add: AdiControlEndpointHandler_def handler_vendor [OF a b])
  have calls: "map ev_call (calls_made world0 (snd ?r))
      = [AdiSetPin 5 True, CyU3PUsbSendEP0Data 4 USBBuffer_ref]"
    "map ev_ret (calls_made world0 (snd ?r)) = [0x40, 0]"
    unfolding w vendor_frame_def c d
    by (simp_all add: v s stmt_defs ext_env_failing world0_def calls_made_def)
  note inst = C5_failure_echoed_not_fatal_outside_reset [OF a b c surjective_pairing,
      where e = ?e and ?setupdat1.0 = "0x00040005" and w = world0]
  from inst have nf: "\<not> fatal_handler_ran world0 (snd ?r)"
    by simp
  from inst obtain ev1 ev2 rest where ev:
    "calls_made world0 (snd ?r) = ev1 # ev2 # rest"
    "status_payload (ev_globals ev2) = le_bytes (ev_ret ev1)"
    "ev_ret ev1 \<noteq> CY_U3P_SUCCESS fx3_build \<longrightarrow> fst ?r = Some False"
    by auto
  from calls ev(1) have e1: "ev_ret ev1 = 0x40" and rest: "rest = []"
    by simp_all
  from ev(1) rest have l: "last (calls_made world0 (snd ?r)) = ev2"
    by simp
  have "le_bytes 0x40 = [0x40, 0, 0, 0]"
    by (simp add: le_bytes_def)
  with a c nf calls ev(2,3) e1 l s show ?thesis
    unfolding Let_def by simp
qed


section \<open>The two reset commands\<close>

lemma agree_refl [simp]: "agree w w"
  by (simp add: agree_def)



lemma agree_print_left [simp]: "agree (CyU3PDebugPrint m a w) w' = agree w w'"
  by (simp add: agree_def CyU3PDebugPrint_def)

lemma agree_print_right [simp]: "agree w (CyU3PDebugPrint m a w') = agree w w'"
  by (simp add: agree_def CyU3PDebugPrint_def)


text \<open>Every call only adds to the trace.\<close>

lemma prefix_ext: "prefix (trace w) (trace (snd (ext e cl w)))"
  by (simp add: ext_trace)

lemma trace_print [simp]: "trace (CyU3PDebugPrint m a w) = trace w"
  by (simp add: CyU3PDebugPrint_def)














section \<open>The bit-bang transfer\<close>

lemma count_list_concat_map:
  "count_list (concat (map f xs)) x = sum_list (map (\<lambda>k. count_list (f k) x) xs)"
  by (induction xs) simp_all

lemma length_filter_concat_map:
  "length (filter P (concat (map f xs))) = sum_list (map (\<lambda>k. length (filter P (f k))) xs)"
  by (induction xs) simp_all

lemma sum_list_const: "sum_list (map (\<lambda>k. (m::nat)) xs) = length xs * m"
  by (induction xs) simp_all

lemma bit_steps_no_deassert: "DeassertCS \<notin> set (bit_steps fhs config b)"
  by (simp add: bit_steps_def)

lemma bit_steps_ticks:
  "sum_list (map ticks (bit_steps fhs config b))
     = 2 * unat (HalfClockDelay config) + BITBANG_HALFCLOCK_OFFSET"
  by (simp add: bit_steps_def)

lemma sum_list_ticks_concat:
  "sum_list (map ticks (concat (map (\<lambda>k. bit_steps fhs config (bits k)) xs)))
     = length xs * (2 * unat (HalfClockDelay config) + BITBANG_HALFCLOCK_OFFSET)"
  by (induction xs) (simp_all add: bit_steps_ticks)

text \<open>
  C8. With \<open>HalfClockDelay = d\<close> and \<open>bitCount = n\<close> the transfer toggles the clock \<open>n\<close>
  times and toggles it back \<open>n\<close> times (one clock pulse per bit), drives MOSI \<open>n\<close> times
  and samples MISO \<open>n\<close> times, and the ticks waited while chip-select is asserted are
  \<open>CSLeadDelay + n * (2 * d + 8) + CSLagDelay\<close>, so at least
  \<open>CSLeadDelay + n * 2 * d + CSLagDelay\<close>.
\<close>

theorem C8_bitbang_toggles_and_duration:
  "count_list (AdiBitBangSpiTransfer fhs bits BitCount config) ToggleClock = unat BitCount
   \<and> count_list (AdiBitBangSpiTransfer fhs bits BitCount config) ToggleClockBack = unat BitCount
   \<and> length (filter drives_MOSI (AdiBitBangSpiTransfer fhs bits BitCount config))
        = unat BitCount
   \<and> count_list (AdiBitBangSpiTransfer fhs bits BitCount config) SampleMISO = unat BitCount
   \<and> cs_asserted_ticks (AdiBitBangSpiTransfer fhs bits BitCount config)
        = unat (CSLeadDelay config)
          + unat BitCount * (2 * unat (HalfClockDelay config) + BITBANG_HALFCLOCK_OFFSET)
          + unat (CSLagDelay config)
   \<and> unat (CSLeadDelay config) + unat BitCount * 2 * unat (HalfClockDelay config)
        + unat (CSLagDelay config)
      \<le> cs_asserted_ticks (AdiBitBangSpiTransfer fhs bits BitCount config)"
proof -
  let ?bits = "concat (map (\<lambda>k. bit_steps fhs config (bits k)) [0..<unat BitCount])"
  have counts:
    "count_list ?bits ToggleClock = unat BitCount"
    "count_list ?bits ToggleClockBack = unat BitCount"
    "count_list ?bits SampleMISO = unat BitCount"
    by (simp_all add: count_list_concat_map bit_steps_def sum_list_const)
  have drives: "length (filter drives_MOSI ?bits) = unat BitCount"
    by (simp add: length_filter_concat_map bit_steps_def drives_MOSI_def sum_list_const)
  have no_deassert: "\<forall>s \<in> set ?bits. s \<noteq> DeassertCS"
    using bit_steps_no_deassert by auto
  have "takeWhile (\<lambda>s. s \<noteq> DeassertCS) (?bits @ [Wait (unat (CSLagDelay config)), DeassertCS])
          = ?bits @ [Wait (unat (CSLagDelay config))]"
    by (subst takeWhile_append2) (use no_deassert in auto)
  then have dur: "cs_asserted_ticks (AdiBitBangSpiTransfer fhs bits BitCount config)
      = unat (CSLeadDelay config)
        + unat BitCount * (2 * unat (HalfClockDelay config) + BITBANG_HALFCLOCK_OFFSET)
        + unat (CSLagDelay config)"
    by (simp add: cs_asserted_ticks_def AdiBitBangSpiTransfer_def sum_list_ticks_concat)
  have "unat BitCount * 2 * unat (HalfClockDelay config)
          \<le> unat BitCount * (2 * unat (HalfClockDelay config) + BITBANG_HALFCLOCK_OFFSET)"
    by (simp add: algebra_simps)
  with dur counts drives show ?thesis
    by (simp add: AdiBitBangSpiTransfer_def drives_MOSI_def)
qed


end
